theory Spec2Isabelle
  imports Complex_Main
begin

section \<open>Student 360 synthetic data generator (scripts/generate_data.py)\<close>

text \<open>
  The generator is a single-threaded Python script. Every function of it draws from the
  process-wide generator of the \<open>random\<close> module and appends rows (dicts) to lists.
  The embedding below threads the generator state explicitly, turns every exception the
  script can raise into a value, keeps dict rows as records (one record per row shape,
  fields prefixed with the row kind since the same key occurs in several row shapes) and
  keeps strings as strings, formatted the way the f-strings of the script format them.
\<close>

subsection \<open>Exceptions\<close>

datatype error = ValueError | IndexError | KeyError | OSError

subsection \<open>The shared pseudo-random source\<close>

text \<open>
  The Mersenne Twister behind \<open>random\<close> is abstracted to the sequence of raw draws it
  produces after \<open>random.seed\<close>: a state is the sequence of raw integers and the
  position reached. Every primitive consumes raw draws and reduces them into the range
  the library function returns (\<open>r mod m\<close> lies in \<open>[0, m)\<close> for every integer
  \<open>r\<close>), so that every value the library can return is reached by some sequence.
\<close>

type_synonym rng = "(nat \<Rightarrow> int) \<times> nat"

type_synonym 'a gen = "rng \<Rightarrow> error + ('a \<times> rng)"

definition gret :: "'a \<Rightarrow> 'a gen" where
  "gret x g = Inr (x, g)"

definition gthrow :: "error \<Rightarrow> 'a gen" where
  "gthrow e g = Inl e"

definition gbind :: "'a gen \<Rightarrow> ('a \<Rightarrow> 'b gen) \<Rightarrow> 'b gen" where
  "gbind m f g = (case m g of Inl e \<Rightarrow> Inl e | Inr (x, g') \<Rightarrow> f x g')"

text \<open>\<open>for x in xs: rows.append(f(x))\<close>: the draws of \<open>f\<close> happen in list order.\<close>

fun gmap :: "('a \<Rightarrow> 'b gen) \<Rightarrow> 'a list \<Rightarrow> 'b list gen" where
  "gmap f [] = gret []"
| "gmap f (x # xs) = gbind (f x) (\<lambda>y. gbind (gmap f xs) (\<lambda>ys. gret (y # ys)))"

definition next_raw :: "int gen" where
  "next_raw g = Inr (fst g (snd g), (fst g, Suc (snd g)))"

text \<open>\<open>random.random()\<close>: a multiple of \<open>2^-53\<close> in \<open>[0, 1)\<close>
  (\<open>2^53 = 9007199254740992\<close>).\<close>

definition py_random :: "rat gen" where
  "py_random =
     gbind next_raw (\<lambda>r. gret (of_int (r mod 9007199254740992) / 9007199254740992))"

text \<open>\<open>random.randint(a, b)\<close>: ValueError on an empty range, else a value in \<open>[a, b]\<close>.\<close>

definition randint :: "int \<Rightarrow> int \<Rightarrow> int gen" where
  "randint a b =
     (if b < a then gthrow ValueError
      else gbind next_raw (\<lambda>r. gret (a + r mod (b - a + 1))))"

text \<open>\<open>random.choice(seq)\<close>: IndexError on an empty sequence.\<close>

definition choice :: "'a list \<Rightarrow> 'a gen" where
  "choice xs =
     (if xs = [] then gthrow IndexError
      else gbind next_raw (\<lambda>r. gret (xs ! nat (r mod int (length xs)))))"

text \<open>
  \<open>random.sample(population, k)\<close>: ValueError when \<open>k\<close> exceeds the population, else
  \<open>k\<close> elements taken at pairwise different positions, in selection order.
\<close>

fun sample_from :: "'a list \<Rightarrow> nat \<Rightarrow> 'a list gen" where
  "sample_from pool 0 = gret []"
| "sample_from pool (Suc k) =
     gbind next_raw (\<lambda>r.
       let j = nat (r mod int (length pool)) in
       gbind (sample_from (take j pool @ drop (Suc j) pool) k) (\<lambda>rest.
       gret (pool ! j # rest)))"

definition sample :: "'a list \<Rightarrow> nat \<Rightarrow> 'a list gen" where
  "sample population k =
     (if length population < k then gthrow ValueError else sample_from population k)"

text \<open>
  \<open>choose_weighted\<close>: \<open>random.choices(items, weights=weights, k=1)[0]\<close>, which bisects
  the cumulative weights at \<open>random() * total\<close> with the index capped at the last item.
  The product is taken exactly here (the library rounds it to a double); unpacking
  \<open>zip(*[])\<close> raises ValueError.
\<close>

fun pick_weighted :: "rat \<Rightarrow> nat \<Rightarrow> ('a \<times> nat) list \<Rightarrow> 'a option" where
  "pick_weighted u acc [] = None"
| "pick_weighted u acc [(x, w)] = Some x"
| "pick_weighted u acc ((x, w) # rest) =
     (if u < of_nat (acc + w) then Some x else pick_weighted u (acc + w) rest)"

definition choose_weighted :: "('a \<times> nat) list \<Rightarrow> 'a gen" where
  "choose_weighted items_with_weights =
     gbind py_random (\<lambda>r.
       case pick_weighted (r * of_nat (sum_list (map snd items_with_weights))) 0
              items_with_weights of
         None \<Rightarrow> gthrow ValueError
       | Some x \<Rightarrow> gret x)"

subsection \<open>String formatting\<close>

definition digit_char :: "nat \<Rightarrow> char" where
  "digit_char d = ''0123456789'' ! d"

fun str_nat :: "nat \<Rightarrow> string" where
  "str_nat n = (if n < 10 then [digit_char n] else str_nat (n div 10) @ [digit_char (n mod 10)])"

declare str_nat.simps [simp del]

text \<open>\<open>str(i)\<close> and \<open>f"{i}"\<close> for an int.\<close>

definition str_int :: "int \<Rightarrow> string" where
  "str_int i = (if i < 0 then CHR ''-'' # str_nat (nat (- i)) else str_nat (nat i))"

definition zfill :: "nat \<Rightarrow> string \<Rightarrow> string" where
  "zfill w s = replicate (w - length s) CHR ''0'' @ s"

text \<open>\<open>f"{i:0wd}"\<close>: sign first, then zeros up to width \<open>w\<close>.\<close>

definition fmt_0d :: "nat \<Rightarrow> int \<Rightarrow> string" where
  "fmt_0d w i =
     (if i < 0 then CHR ''-'' # zfill (w - 1) (str_nat (nat (- i)))
      else zfill w (str_nat (nat i)))"

text \<open>\<open>str.lower()\<close> on the ASCII names of the script.\<close>

definition lower_char :: "char \<Rightarrow> char" where
  "lower_char c =
     (if 65 \<le> (of_char c :: nat) \<and> (of_char c :: nat) \<le> 90
      then char_of ((of_char c :: nat) + 32) else c)"

definition lower :: "string \<Rightarrow> string" where
  "lower s = map lower_char s"

subsection \<open>datetime\<close>

text \<open>
  A naive \<open>datetime\<close> is the number of seconds since the start of proleptic Gregorian
  ordinal day 0; a \<open>timedelta\<close> is a number of seconds. The ordinal is computed as
  \<open>datetime._ymd2ord\<close> does and taken apart as \<open>datetime._ord2ymd\<close> does. The
  constructor is only called with valid calendar dates in the script.
\<close>

type_synonym datetime = int

definition is_leap :: "int \<Rightarrow> bool" where
  "is_leap y \<longleftrightarrow> y mod 4 = 0 \<and> (y mod 100 \<noteq> 0 \<or> y mod 400 = 0)"

definition days_before_year :: "int \<Rightarrow> int" where
  "days_before_year year =
     (let y = year - 1 in y * 365 + y div 4 - y div 100 + y div 400)"

definition days_in_month_tab :: "int list" where
  "days_in_month_tab = [0, 31, 28, 31, 30, 31, 30, 31, 31, 30, 31, 30, 31]"

definition days_before_month_tab :: "int list" where
  "days_before_month_tab = [0, 0, 31, 59, 90, 120, 151, 181, 212, 243, 273, 304, 334]"

definition days_before_month :: "int \<Rightarrow> int \<Rightarrow> int" where
  "days_before_month year month =
     days_before_month_tab ! nat month + (if 2 < month \<and> is_leap year then 1 else 0)"

definition ymd2ord :: "int \<Rightarrow> int \<Rightarrow> int \<Rightarrow> int" where
  "ymd2ord year month day = days_before_year year + days_before_month year month + day"

definition ord2ymd :: "int \<Rightarrow> int \<times> int \<times> int" where
  "ord2ymd ordinal =
     (let n = ordinal - 1;
          n400 = n div 146097; n = n mod 146097;
          year = n400 * 400 + 1;
          n100 = n div 36524; n = n mod 36524;
          n4 = n div 1461; n = n mod 1461;
          n1 = n div 365; n = n mod 365;
          year = year + n100 * 100 + n4 * 4 + n1
      in if n1 = 4 \<or> n100 = 4 then (year - 1, 12, 31)
         else
           let leapyear = (n1 = 3 \<and> (n4 \<noteq> 24 \<or> n100 = 3));
               month = (n + 50) div 32;
               preceding = days_before_month_tab ! nat month
                           + (if 2 < month \<and> leapyear then 1 else 0)
           in if n < preceding
              then
                let month = month - 1;
                    preceding = preceding - (days_in_month_tab ! nat month
                                + (if month = 2 \<and> leapyear then 1 else 0))
                in (year, month, n - preceding + 1)
              else (year, month, n - preceding + 1))"

definition mk_datetime :: "int \<Rightarrow> int \<Rightarrow> int \<Rightarrow> datetime" where
  "mk_datetime year month day = ymd2ord year month day * 86400"

definition timedelta :: "int \<Rightarrow> int \<Rightarrow> int \<Rightarrow> int" where
  "timedelta days hours minutes = days * 86400 + hours * 3600 + minutes * 60"

text \<open>\<open>(a - b).days\<close>: a timedelta is normalised with \<open>0 \<le> seconds < 86400\<close>.\<close>

definition delta_days :: "int \<Rightarrow> int" where
  "delta_days d = d div 86400"

text \<open>\<open>dt.date().toordinal()\<close>.\<close>

definition toordinal :: "datetime \<Rightarrow> int" where
  "toordinal dt = dt div 86400"

text \<open>\<open>strftime("%Y-%m-%d")\<close> and \<open>strftime("%Y-%m-%d %H:%M:%S")\<close>.\<close>

definition strftime_date :: "datetime \<Rightarrow> string" where
  "strftime_date dt =
     (case ord2ymd (toordinal dt) of (y, m, d) \<Rightarrow>
        fmt_0d 4 y @ ''-'' @ fmt_0d 2 m @ ''-'' @ fmt_0d 2 d)"

definition strftime_ts :: "datetime \<Rightarrow> string" where
  "strftime_ts dt =
     (let s = dt mod 86400 in
      strftime_date dt @ '' '' @ fmt_0d 2 (s div 3600) @ '':''
        @ fmt_0d 2 (s mod 3600 div 60) @ '':'' @ fmt_0d 2 (s mod 60))"

subsection \<open>Terms\<close>

record term_row =
  tm_term_id :: string
  tm_term_name :: string
  tm_start_date :: datetime
  tm_end_date :: datetime

definition generate_terms :: "term_row list" where
  "generate_terms =
     [\<lparr>tm_term_id = ''2024FA'', tm_term_name = ''Fall 2024'',
       tm_start_date = mk_datetime 2024 8 26, tm_end_date = mk_datetime 2024 12 13\<rparr>,
      \<lparr>tm_term_id = ''2025SP'', tm_term_name = ''Spring 2025'',
       tm_start_date = mk_datetime 2025 1 13, tm_end_date = mk_datetime 2025 5 2\<rparr>,
      \<lparr>tm_term_id = ''2025FA'', tm_term_name = ''Fall 2025'',
       tm_start_date = mk_datetime 2025 8 25, tm_end_date = mk_datetime 2025 12 12\<rparr>]"

subsection \<open>Advisors and students\<close>

record advisor_row =
  adv_advisor_id :: string
  adv_advisor_name :: string
  adv_department :: string

record student_row =
  st_student_id :: int
  st_first_name :: string
  st_last_name :: string
  st_email :: string
  st_dob :: string
  st_gender :: string
  st_ethnicity :: string
  st_residency :: string
  st_program :: string
  st_major :: string
  st_admit_term_id :: string
  st_current_term_id :: string
  st_class_standing :: string
  st_advisor_id :: string

definition student_first_names :: "string list" where
  "student_first_names =
     [''Olivia'', ''Liam'', ''Emma'', ''Noah'', ''Ava'', ''Oliver'', ''Sophia'', ''Elijah'',
      ''Isabella'', ''Mateo'', ''Mia'', ''Lucas'', ''Amelia'', ''Levi'', ''Harper'', ''Asher'',
      ''Evelyn'', ''James'', ''Luna'', ''Benjamin'']"

definition student_last_names :: "string list" where
  "student_last_names =
     [''Smith'', ''Johnson'', ''Williams'', ''Brown'', ''Jones'', ''Garcia'', ''Miller'',
      ''Davis'', ''Rodriguez'', ''Martinez'', ''Hernandez'', ''Lopez'', ''Gonzalez'',
      ''Wilson'', ''Anderson'', ''Thomas'', ''Taylor'', ''Moore'', ''Jackson'', ''Martin'']"

definition genders :: "string list" where
  "genders = [''F'', ''M'', ''X'']"

definition residency_values :: "string list" where
  "residency_values = [''IN_STATE'', ''OUT_OF_STATE'', ''INTERNATIONAL'']"

definition majors :: "string list" where
  "majors =
     [''Computer Science'', ''Mathematics'', ''Biology'', ''Chemistry'', ''Economics'',
      ''Psychology'', ''History'', ''Art'', ''Business Administration'', ''Sociology'',
      ''Statistics'', ''Physics'', ''Philosophy'', ''Education'', ''Nursing'']"

definition ethnicities :: "string list" where
  "ethnicities =
     [''Not Disclosed'', ''Hispanic or Latino'', ''White'', ''Black or African American'',
      ''Asian'', ''Multiracial'']"

definition standings :: "string list" where
  "standings = [''Freshman'', ''Sophomore'', ''Junior'', ''Senior'']"

text \<open>\<open>list.index(x)\<close>: the first position of \<open>x\<close>, ValueError when absent.\<close>

fun index_from :: "nat \<Rightarrow> 'a list \<Rightarrow> 'a \<Rightarrow> nat option" where
  "index_from i [] x = None"
| "index_from i (y # ys) x = (if y = x then Some i else index_from (Suc i) ys x)"

definition py_index :: "'a list \<Rightarrow> 'a \<Rightarrow> nat gen" where
  "py_index xs x = (case index_from 0 xs x of None \<Rightarrow> gthrow ValueError | Some i \<Rightarrow> gret i)"

text \<open>\<open>xs[-1]\<close>: IndexError on an empty list.\<close>

definition py_last :: "'a list \<Rightarrow> 'a gen" where
  "py_last xs = (if xs = [] then gthrow IndexError else gret (last xs))"

text \<open>The body of the loop of \<open>generate_students\<close> for one \<open>i\<close>.\<close>

definition generate_student :: "string list \<Rightarrow> advisor_row list \<Rightarrow> int \<Rightarrow> student_row gen" where
  "generate_student term_ids advisors i =
     (let sid = 10000000 + i in
      gbind (choice student_first_names) (\<lambda>fn.
      gbind (choice student_last_names) (\<lambda>ln.
      let email = lower fn @ ''.'' @ lower ln @ str_int (sid mod 1000) @ ''@example.edu'' in
      gbind (randint 0 (365 * 10)) (\<lambda>dob_days.
      let dob = mk_datetime 1998 1 1 + timedelta dob_days 0 0 in
      gbind (choice genders) (\<lambda>gender.
      gbind (choose_weighted [(residency_values ! 0, 70), (residency_values ! 1, 25),
                              (residency_values ! 2, 5)]) (\<lambda>residency.
      let program = ''Undergraduate'' in
      gbind (choice majors) (\<lambda>major.
      gbind (choice (butlast term_ids)) (\<lambda>admit_term_id.
      gbind (py_last term_ids) (\<lambda>current_term_id.
      gbind (py_index term_ids current_term_id) (\<lambda>ci.
      gbind (py_index term_ids admit_term_id) (\<lambda>ai.
      let term_index = int ci - int ai;
          class_standing = standings ! nat (min (max term_index 0) 3) in
      gbind (choice advisors) (\<lambda>advisor.
      let advisor_id = adv_advisor_id advisor in
      gbind (choice ethnicities) (\<lambda>ethnicity.
      gret \<lparr>st_student_id = sid, st_first_name = fn, st_last_name = ln, st_email = email,
            st_dob = strftime_date dob, st_gender = gender, st_ethnicity = ethnicity,
            st_residency = residency, st_program = program, st_major = major,
            st_admit_term_id = admit_term_id, st_current_term_id = current_term_id,
            st_class_standing = class_standing, st_advisor_id = advisor_id\<rparr>)))))))))))))"

definition generate_students ::
  "int \<Rightarrow> term_row list \<Rightarrow> advisor_row list \<Rightarrow> student_row list gen" where
  "generate_students num_students terms advisors =
     (let term_ids = map tm_term_id terms in
      gmap (generate_student term_ids advisors) (map int [0..<nat num_students]))"

subsection \<open>Courses, sections and the advisor roster\<close>

record course_row =
  crs_course_id :: string
  crs_subject :: string
  crs_catalog_nbr :: string
  crs_title :: string
  crs_units :: int

record section_row =
  sec_course_section_id :: string
  sec_course_id :: string
  sec_term_id :: string
  sec_section_nbr :: int
  sec_modality :: string

definition subjects :: "string list" where
  "subjects =
     [''MATH'', ''ENG'', ''CS'', ''BIO'', ''CHEM'', ''HIST'', ''ECON'', ''PSYC'', ''PHYS'',
      ''ART'', ''STAT'', ''BUS'', ''SOC'', ''PHIL'']"

definition titles :: "string list" where
  "titles =
     [''Introduction'', ''Foundations'', ''Principles'', ''Advanced Topics'', ''Methods'',
      ''Applications'', ''Data Analysis'', ''Algorithms'', ''Laboratory'', ''Seminar'',
      ''Design'']"

text \<open>One pass of the \<open>while\<close> loop of \<open>generate_catalog\<close>; each pass appends one course.\<close>

definition generate_course :: "course_row gen" where
  "generate_course =
     gbind (choice subjects) (\<lambda>subj.
     gbind (randint 100 499) (\<lambda>nbr.
     let catalog_nbr = str_int nbr in
     gbind (choice titles) (\<lambda>t.
     let title = subj @ '' '' @ t in
     gbind (choice [3, 3, 3, 4]) (\<lambda>units.
     let course_id = subj @ catalog_nbr in
     gret \<lparr>crs_course_id = course_id, crs_subject = subj, crs_catalog_nbr = catalog_nbr,
           crs_title = title, crs_units = units\<rparr>))))"

definition generate_catalog :: "int \<Rightarrow> course_row list gen" where
  "generate_catalog num_courses = gmap (\<lambda>_. generate_course) [0..<nat num_courses]"

definition generate_section :: "term_row \<Rightarrow> course_row \<Rightarrow> int \<Rightarrow> section_row gen" where
  "generate_section term course section_nbr =
     gbind (choice [''INPERSON'', ''ONLINE'', ''HYBRID'']) (\<lambda>modality.
     let course_section_id =
           crs_course_id course @ ''-'' @ tm_term_id term @ ''-S'' @ fmt_0d 2 section_nbr in
     gret \<lparr>sec_course_section_id = course_section_id, sec_course_id = crs_course_id course,
           sec_term_id = tm_term_id term, sec_section_nbr = section_nbr,
           sec_modality = modality\<rparr>)"

definition generate_course_sections :: "term_row \<Rightarrow> course_row \<Rightarrow> section_row list gen" where
  "generate_course_sections term course =
     gbind (choice [1, 1, 1, 2, 3]) (\<lambda>num_sections.
     gmap (generate_section term course) [1..num_sections])"

definition generate_sections :: "course_row list \<Rightarrow> term_row list \<Rightarrow> section_row list gen" where
  "generate_sections courses terms =
     gbind (gmap (\<lambda>term.
              gbind (gmap (generate_course_sections term) courses) (\<lambda>per_course.
              gret (concat per_course))) terms) (\<lambda>per_term.
     gret (concat per_term))"

definition advisor_first_names :: "string list" where
  "advisor_first_names =
     [''Alex'', ''Jordan'', ''Taylor'', ''Casey'', ''Riley'', ''Morgan'', ''Jamie'', ''Avery'',
      ''Quinn'', ''Parker'', ''Reese'', ''Blake'', ''Drew'', ''Rowan'', ''Skyler'', ''Hayden'',
      ''Kendall'', ''Logan'', ''Emerson'', ''Finley'']"

definition advisor_last_names :: "string list" where
  "advisor_last_names =
     [''Smith'', ''Johnson'', ''Brown'', ''Jones'', ''Garcia'', ''Miller'', ''Davis'',
      ''Rodriguez'', ''Martinez'', ''Hernandez'', ''Lopez'', ''Gonzalez'', ''Wilson'',
      ''Anderson'', ''Thomas'', ''Taylor'', ''Moore'', ''Jackson'', ''Martin'', ''Lee'']"

definition departments :: "string list" where
  "departments =
     [''Engineering'', ''Science'', ''Arts'', ''Business'', ''Social Sciences'', ''Education'',
      ''Health'', ''Undeclared'']"

definition generate_advisor :: "int \<Rightarrow> advisor_row gen" where
  "generate_advisor i =
     gbind (choice advisor_first_names) (\<lambda>fn.
     gbind (choice advisor_last_names) (\<lambda>ln.
     let name = fn @ '' '' @ ln in
     gbind (choice departments) (\<lambda>department.
     gret \<lparr>adv_advisor_id = ''ADV'' @ fmt_0d 3 i, adv_advisor_name = name,
           adv_department = department\<rparr>)))"

definition generate_advisors :: "int \<Rightarrow> advisor_row list gen" where
  "generate_advisors num_advisors = gmap generate_advisor [1..num_advisors]"

subsection \<open>Dictionaries\<close>

text \<open>
  \<open>d.setdefault(k, []).append(v)\<close> on a dict whose iteration order is the order of first
  insertion: an association list with one entry per key.
\<close>

fun setdefault_append :: "'k \<Rightarrow> 'v \<Rightarrow> ('k \<times> 'v list) list \<Rightarrow> ('k \<times> 'v list) list" where
  "setdefault_append k v [] = [(k, [v])]"
| "setdefault_append k v ((k', vs) # rest) =
     (if k' = k then (k', vs @ [v]) # rest else (k', vs) # setdefault_append k v rest)"

definition group_by :: "('v \<Rightarrow> 'k) \<Rightarrow> 'v list \<Rightarrow> ('k \<times> 'v list) list" where
  "group_by key xs = foldl (\<lambda>d x. setdefault_append (key x) x d) [] xs"

text \<open>\<open>d[k]\<close>: KeyError for an absent key.\<close>

definition dict_get :: "('k \<times> 'v) list \<Rightarrow> 'k \<Rightarrow> 'v gen" where
  "dict_get d k = (case map_of d k of None \<Rightarrow> gthrow KeyError | Some v \<Rightarrow> gret v)"

definition map_get :: "('k \<rightharpoonup> 'v) \<Rightarrow> 'k \<Rightarrow> 'v gen" where
  "map_get m k = (case m k of None \<Rightarrow> gthrow KeyError | Some v \<Rightarrow> gret v)"

subsection \<open>Enrollments\<close>

text \<open>
  \<open>grade_points\<close> is the empty string on an ENROLLED row (\<open>None\<close> here) and a float of
  the letter table on a COMPLETED row, kept as the decimal the literal denotes.
\<close>

record enrollment_row =
  enr_student_id :: int
  enr_course_section_id :: string
  enr_term_id :: string
  enr_enrollment_status :: string
  enr_grade_letter :: string
  enr_grade_points :: "rat option"

definition grade_letters :: "string list" where
  "grade_letters = [''A'', ''A-'', ''B+'', ''B'', ''B-'', ''C+'', ''C'', ''D'', ''F'']"

definition grade_points_table :: "(string \<times> rat) list" where
  "grade_points_table =
     [(''A'', 4), (''A-'', 37 / 10), (''B+'', 33 / 10), (''B'', 3), (''B-'', 27 / 10),
      (''C+'', 23 / 10), (''C'', 2), (''D'', 1), (''F'', 0)]"

text \<open>\<open>xs[-2]\<close>: IndexError when the list has fewer than two elements.\<close>

definition py_second_last :: "'a list \<Rightarrow> 'a gen" where
  "py_second_last xs =
     (if length xs < 2 then gthrow IndexError else gret (xs ! (length xs - 2)))"

text \<open>
  The body of the loop of \<open>generate_enrollments\<close> for one student. The double nearest to
  0.4 is \<open>3602879701896397 / 2^53\<close>.
\<close>

definition student_enrollments ::
  "(string \<times> section_row list) list \<Rightarrow> string \<Rightarrow> string \<Rightarrow> student_row \<Rightarrow>
   enrollment_row list gen" where
  "student_enrollments sections_by_term current_term_id prior_term_id student =
     gbind (dict_get sections_by_term current_term_id) (\<lambda>cur_pool.
     gbind (choice [4, 4, 5]) (\<lambda>k.
     gbind (sample cur_pool k) (\<lambda>current_sections.
     let current_rows =
           map (\<lambda>sec. \<lparr>enr_student_id = st_student_id student,
                        enr_course_section_id = sec_course_section_id sec,
                        enr_term_id = current_term_id,
                        enr_enrollment_status = ''ENROLLED'',
                        enr_grade_letter = [], enr_grade_points = None\<rparr>) current_sections in
     gbind py_random (\<lambda>r.
     if r < 3602879701896397 / 9007199254740992
     then
       gbind (dict_get sections_by_term prior_term_id) (\<lambda>prior_pool.
       gbind (choice [3, 4]) (\<lambda>k'.
       gbind (sample prior_pool k') (\<lambda>prior_sections.
       gbind (gmap (\<lambda>sec.
                gbind (choice grade_letters) (\<lambda>grade_letter.
                gbind (dict_get grade_points_table grade_letter) (\<lambda>grade_points.
                gret \<lparr>enr_student_id = st_student_id student,
                      enr_course_section_id = sec_course_section_id sec,
                      enr_term_id = prior_term_id,
                      enr_enrollment_status = ''COMPLETED'',
                      enr_grade_letter = grade_letter,
                      enr_grade_points = Some grade_points\<rparr>))) prior_sections) (\<lambda>prior_rows.
       gret (current_rows @ prior_rows)))))
     else gret current_rows))))"

definition generate_enrollments ::
  "student_row list \<Rightarrow> section_row list \<Rightarrow> term_row list \<Rightarrow> enrollment_row list gen" where
  "generate_enrollments students sections terms =
     gbind (py_last terms) (\<lambda>current_term.
     gbind (py_second_last terms) (\<lambda>prior_term.
     let current_term_id = tm_term_id current_term;
         prior_term_id = tm_term_id prior_term;
         sections_by_term = group_by sec_term_id sections in
     gbind (gmap (student_enrollments sections_by_term current_term_id prior_term_id) students)
       (\<lambda>per_student.
     gret (concat per_student))))"

subsection \<open>Financials\<close>

record account_row =
  acc_student_id :: int
  acc_term_id :: string
  acc_total_charges :: int
  acc_total_payments :: int
  acc_balance :: int

record transaction_row =
  tx_transaction_id :: string
  tx_student_id :: int
  tx_term_id :: string
  tx_trans_dt :: string
  tx_trans_type :: string
  tx_amount :: int
  tx_method :: string

record award_row =
  aw_award_id :: string
  aw_student_id :: int
  aw_term_id :: string
  aw_aid_type :: string
  aw_amount :: int
  aw_disbursed_dt :: string

text \<open>
  \<open>round(x, ndigits)\<close> on an int: the int itself for \<open>ndigits \<ge> 0\<close>, else the nearest
  multiple of \<open>10 ^ -ndigits\<close>, ties to the even multiple. All amounts of
  \<open>generate_financials\<close> are ints (units, rates, fees, payments and aid are ints).
\<close>

definition round_int :: "int \<Rightarrow> int \<Rightarrow> int" where
  "round_int x ndigits =
     (if 0 \<le> ndigits then x
      else
        let p = 10 ^ nat (- ndigits); q = x div p; r = x mod p in
        if 2 * r < p then q * p
        else if p < 2 * r then (q + 1) * p
        else if even q then q * p else (q + 1) * p)"

text \<open>\<open>s.split("-")[0]\<close>: the part of \<open>s\<close> before the first dash.\<close>

definition split_first :: "char \<Rightarrow> string \<Rightarrow> string" where
  "split_first sep s = takeWhile (\<lambda>c. c \<noteq> sep) s"

definition endswith :: "string \<Rightarrow> string \<Rightarrow> bool" where
  "endswith s suffix \<longleftrightarrow>
     length suffix \<le> length s \<and> drop (length s - length suffix) s = suffix"

text \<open>The first loop of \<open>generate_financials\<close>: units of the course of every enrollment.\<close>

fun units_loop ::
  "(string \<rightharpoonup> course_row) \<Rightarrow> enrollment_row list \<Rightarrow> (string \<rightharpoonup> int) \<Rightarrow>
   (string \<rightharpoonup> int) gen" where
  "units_loop courses_by_id [] units_by_section = gret units_by_section"
| "units_loop courses_by_id (enr # rest) units_by_section =
     (let course_id = split_first CHR ''-'' (enr_course_section_id enr) in
      gbind (map_get courses_by_id course_id) (\<lambda>course.
      units_loop courses_by_id rest
        (units_by_section(enr_course_section_id enr \<mapsto> crs_units course))))"

text \<open>The payment loop: \<open>n\<close> payments numbered from \<open>trans_id\<close>.\<close>

fun payments_loop :: "nat \<Rightarrow> int \<Rightarrow> string \<Rightarrow> int \<Rightarrow> transaction_row list gen" where
  "payments_loop 0 student_id term_id trans_id = gret []"
| "payments_loop (Suc n) student_id term_id trans_id =
     gbind (randint 200 2000) (\<lambda>amt.
     gbind (choice [''CARD'', ''ACH'', ''CASH'']) (\<lambda>method.
     gbind (payments_loop n student_id term_id (trans_id + 1)) (\<lambda>rest.
     gret (\<lparr>tx_transaction_id = ''TX'' @ fmt_0d 9 trans_id, tx_student_id = student_id,
            tx_term_id = term_id,
            tx_trans_dt = strftime_date (if endswith term_id ''SP'' then mk_datetime 2025 2 1
                                         else mk_datetime 2025 9 1),
            tx_trans_type = ''PAYMENT'', tx_amount = amt, tx_method = method\<rparr> # rest))))"

text \<open>
  The body of the main loop for one \<open>(student_id, term_id)\<close> group, with the counters
  \<open>trans_id\<close> and \<open>award_id\<close> on entry: the account row, the transactions and the aid
  awards the pass appends, in append order. The doubles nearest to 0.7 and 0.55 are
  \<open>6305039478318694 / 2^53\<close> and \<open>4953959590107546 / 2^53\<close>.
\<close>

definition financial_group ::
  "(string \<rightharpoonup> int) \<Rightarrow> (int \<times> string) \<times> enrollment_row list \<Rightarrow> int \<Rightarrow> int \<Rightarrow>
   (account_row \<times> transaction_row list \<times> award_row list) gen" where
  "financial_group units_by_section grp trans_id award_id =
     (case grp of ((student_id, term_id), enr_list) \<Rightarrow>
      gbind (gmap (\<lambda>e. map_get units_by_section (enr_course_section_id e)) enr_list) (\<lambda>us.
      let total_units = sum_list us in
      gbind py_random (\<lambda>r.
      let tuition_rate = (if r < 6305039478318694 / 9007199254740992 then 350 else 650);
          charges = total_units * tuition_rate in
      gbind (randint 100 400) (\<lambda>fees.
      let total_charges = round_int (charges + fees) 2 in
      gbind py_random (\<lambda>r'.
      gbind (if r' < 4953959590107546 / 9007199254740992
             then
               gbind (randint 500 3500) (\<lambda>aid.
               gbind (choice [''Grant'', ''Scholarship'', ''Loan'']) (\<lambda>aid_type.
               gret (aid,
                 [\<lparr>aw_award_id = ''AWD'' @ fmt_0d 7 award_id, aw_student_id = student_id,
                   aw_term_id = term_id, aw_aid_type = aid_type, aw_amount = aid,
                   aw_disbursed_dt =
                     strftime_date (if endswith term_id ''SP'' then mk_datetime 2025 1 10
                                    else mk_datetime 2025 8 20)\<rparr>])))
             else gret (0, [])) (\<lambda>(aid, awards).
      gbind (choice [1, 2, 3]) (\<lambda>n.
      gbind (payments_loop n student_id term_id trans_id) (\<lambda>payment_rows.
      let payments = sum_list (map tx_amount payment_rows);
          charge_row =
            \<lparr>tx_transaction_id = ''TX'' @ fmt_0d 9 (trans_id + int n),
             tx_student_id = student_id, tx_term_id = term_id,
             tx_trans_dt = strftime_date (if endswith term_id ''SP'' then mk_datetime 2025 1 20
                                          else mk_datetime 2025 8 28),
             tx_trans_type = ''CHARGE'', tx_amount = total_charges, tx_method = ''BILLING''\<rparr>;
          total_payments = payments + aid;
          balance = round_int (total_charges - total_payments) 2 in
      gret (\<lparr>acc_student_id = student_id, acc_term_id = term_id,
             acc_total_charges = round_int total_charges 2,
             acc_total_payments = round_int total_payments 2,
             acc_balance = balance\<rparr>,
            payment_rows @ [charge_row], awards)))))))))"

text \<open>
  The main loop over the groups in insertion order. A pass that appended \<open>k\<close>
  transactions has advanced \<open>trans_id\<close> by \<open>k\<close>, and \<open>award_id\<close> by the number of awards.
\<close>

fun financials_loop ::
  "(string \<rightharpoonup> int) \<Rightarrow> ((int \<times> string) \<times> enrollment_row list) list \<Rightarrow> int \<Rightarrow> int \<Rightarrow>
   (account_row list \<times> transaction_row list \<times> award_row list) gen" where
  "financials_loop units_by_section [] trans_id award_id = gret ([], [], [])"
| "financials_loop units_by_section (grp # rest) trans_id award_id =
     gbind (financial_group units_by_section grp trans_id award_id) (\<lambda>(account, txs, awards).
     gbind (financials_loop units_by_section rest
              (trans_id + int (length txs)) (award_id + int (length awards)))
       (\<lambda>(student_accounts, transactions, aid_awards).
     gret (account # student_accounts, txs @ transactions, awards @ aid_awards)))"

text \<open>
  \<open>max(set(...))\<close> of the term ids raises ValueError when there is no enrollment; its
  value, \<open>current_term_id\<close>, is not used afterwards. The \<open>students\<close> argument is not used.
\<close>

definition generate_financials ::
  "student_row list \<Rightarrow> enrollment_row list \<Rightarrow> (string \<rightharpoonup> course_row) \<Rightarrow>
   (account_row list \<times> transaction_row list \<times> award_row list) gen" where
  "generate_financials students enrollments courses_by_id =
     gbind (units_loop courses_by_id enrollments Map.empty) (\<lambda>units_by_section.
     if enrollments = [] then gthrow ValueError
     else
       let enrollments_by_student_term =
             group_by (\<lambda>enr. (enr_student_id enr, enr_term_id enr)) enrollments in
       financials_loop units_by_section enrollments_by_student_term 1 1)"

subsection \<open>LMS crosswalk, logins and submissions\<close>

record xwalk_row =
  xw_course_section_id :: string
  xw_lms_course_id :: string

record login_row =
  log_student_id :: int
  log_lms_course_id :: string
  log_event_ts :: string
  log_event_type :: string

record submission_row =
  sub_student_id :: int
  sub_lms_course_id :: string
  sub_assignment_id :: string
  sub_submitted_ts :: string
  sub_score :: int
  sub_max_score :: int
  sub_late_flag :: string

text \<open>The \<open>term_dates\<close> dict literal of \<open>generate_lms\<close>.\<close>

definition term_dates :: "(string \<times> datetime \<times> datetime) list" where
  "term_dates =
     [(''2024FA'', mk_datetime 2024 8 26, mk_datetime 2024 12 13),
      (''2025SP'', mk_datetime 2025 1 13, mk_datetime 2025 5 2),
      (''2025FA'', mk_datetime 2025 8 25, mk_datetime 2025 12 12)]"

text \<open>
  \<open>f"LMS-{abs(hash(course_section_id)) % 10_000_000:07d}"\<close>. The built-in \<open>hash\<close> of a
  \<open>str\<close> is keyed by a secret that the interpreter draws when the process starts (unless
  \<open>PYTHONHASHSEED\<close> fixes it): it is a function of the process, not of \<open>random.seed\<close>, and
  is a parameter \<open>py_hash\<close> here.
\<close>

definition lms_course_id_of :: "(string \<Rightarrow> int) \<Rightarrow> string \<Rightarrow> string" where
  "lms_course_id_of py_hash course_section_id =
     ''LMS-'' @ fmt_0d 7 (\<bar>py_hash course_section_id\<bar> mod 10000000)"

text \<open>
  The first loop: the dict \<open>lms_id_by_section\<close> and the crosswalk rows. The row reads the
  dict entry that was just assigned.
\<close>

fun xwalk_loop ::
  "(string \<Rightarrow> int) \<Rightarrow> section_row list \<Rightarrow> (string \<rightharpoonup> string) \<Rightarrow>
   (string \<rightharpoonup> string) \<times> xwalk_row list" where
  "xwalk_loop py_hash [] lms_id_by_section = (lms_id_by_section, [])"
| "xwalk_loop py_hash (sec # rest) lms_id_by_section =
     (let lms_course_id = lms_course_id_of py_hash (sec_course_section_id sec);
          d = lms_id_by_section(sec_course_section_id sec \<mapsto> lms_course_id);
          row = \<lparr>xw_course_section_id = sec_course_section_id sec,
                 xw_lms_course_id = lms_course_id\<rparr>;
          (d', rows) = xwalk_loop py_hash rest d
      in (d', row # rows))"

text \<open>
  One login/view event of an enrollment. \<open>login_event_ts\<close> is the right-hand side of the
  assignment to \<open>event_ts\<close>: the term's start plus a day offset up to
  \<open>(end_dt - start_dt).days\<close>, 8 to 20 hours and 0 to 59 minutes. The row holds its
  rendering.
\<close>

definition login_event_ts :: "datetime \<Rightarrow> datetime \<Rightarrow> datetime gen" where
  "login_event_ts start_dt end_dt =
     gbind (randint 0 (delta_days (end_dt - start_dt))) (\<lambda>days.
     gbind (randint 8 20) (\<lambda>hours.
     gbind (randint 0 59) (\<lambda>minutes.
     gret (start_dt + timedelta days hours minutes))))"

definition login_event :: "datetime \<Rightarrow> datetime \<Rightarrow> int \<Rightarrow> string \<Rightarrow> login_row gen" where
  "login_event start_dt end_dt student_id lms_course_id =
     gbind (login_event_ts start_dt end_dt) (\<lambda>event_ts.
     gbind (choice [''login'', ''view'', ''discussion_view'', ''resource_click'']) (\<lambda>event_type.
     gret \<lparr>log_student_id = student_id, log_lms_course_id = lms_course_id,
           log_event_ts = strftime_ts event_ts, log_event_type = event_type\<rparr>))"

definition submission :: "datetime \<Rightarrow> datetime \<Rightarrow> int \<Rightarrow> string \<Rightarrow> int \<Rightarrow> submission_row gen" where
  "submission start_dt end_dt student_id lms_course_id aidx =
     gbind (randint 7 (delta_days (end_dt - start_dt))) (\<lambda>days.
     let submitted_ts = start_dt + timedelta days 0 0 in
     gbind (randint 60 100) (\<lambda>score.
     let max_score = 100 in
     gbind (choice [''0'', ''0'', ''0'', ''1'']) (\<lambda>late_flag.
     gret \<lparr>sub_student_id = student_id, sub_lms_course_id = lms_course_id,
           sub_assignment_id = ''A'' @ fmt_0d 2 aidx,
           sub_submitted_ts = strftime_ts submitted_ts, sub_score = score,
           sub_max_score = max_score, sub_late_flag = late_flag\<rparr>)))"

text \<open>The body of the loop over the enrollments: six logins, then four submissions.\<close>

definition enrollment_lms ::
  "(string \<rightharpoonup> string) \<Rightarrow> enrollment_row \<Rightarrow> (login_row list \<times> submission_row list) gen" where
  "enrollment_lms lms_id_by_section enr =
     (let csid = enr_course_section_id enr; term_id = enr_term_id enr in
      gbind (dict_get term_dates term_id) (\<lambda>(start_dt, end_dt).
      gbind (map_get lms_id_by_section csid) (\<lambda>lms_course_id.
      let student_id = enr_student_id enr in
      gbind (gmap (\<lambda>_. login_event start_dt end_dt student_id lms_course_id) [0..<6])
        (\<lambda>logins.
      gbind (gmap (submission start_dt end_dt student_id lms_course_id) [1..4])
        (\<lambda>subs.
      gret (logins, subs))))))"

definition generate_lms ::
  "(string \<Rightarrow> int) \<Rightarrow> enrollment_row list \<Rightarrow> section_row list \<Rightarrow>
   (xwalk_row list \<times> login_row list \<times> submission_row list) gen" where
  "generate_lms py_hash enrollments sections =
     (let (lms_id_by_section, xwalk) = xwalk_loop py_hash sections Map.empty in
      gbind (gmap (enrollment_lms lms_id_by_section) enrollments) (\<lambda>per_enrollment.
      gret (xwalk, concat (map fst per_enrollment), concat (map snd per_enrollment))))"

subsection \<open>Admissions\<close>

record application_row =
  app_student_id :: int
  app_application_id :: string
  app_app_term_id :: string
  app_app_complete_dt :: string
  app_decision :: string
  app_decision_dt :: string
  app_deposit_flag :: string

record test_row =
  tst_student_id :: int
  tst_test_type :: string
  tst_test_date :: string
  tst_score :: int

text \<open>
  The body of the loop of \<open>generate_admissions\<close>: the application and the test score, if
  one is drawn. The double nearest to 0.6 is \<open>5404319552844595 / 2^53\<close>.
\<close>

definition student_admission :: "student_row \<Rightarrow> (application_row \<times> test_row list) gen" where
  "student_admission s =
     (let app_term_id = st_admit_term_id s in
      gbind (randint 0 200) (\<lambda>d.
      let app_complete_dt = mk_datetime 2024 1 1 + timedelta d 0 0;
          decision = ''Admit'' in
      gbind (randint 5 30) (\<lambda>d'.
      let decision_dt = app_complete_dt + timedelta d' 0 0 in
      gbind (choice [''1'', ''1'', ''1'', ''0'']) (\<lambda>deposit_flag.
      let application =
            \<lparr>app_student_id = st_student_id s,
             app_application_id = ''APP'' @ str_int (st_student_id s),
             app_app_term_id = app_term_id,
             app_app_complete_dt = strftime_date app_complete_dt,
             app_decision = decision, app_decision_dt = strftime_date decision_dt,
             app_deposit_flag = deposit_flag\<rparr> in
      gbind py_random (\<lambda>r.
      if r < 5404319552844595 / 9007199254740992
      then
        gbind (choice [''SAT'', ''ACT'']) (\<lambda>test_type.
        gbind (randint 30 180) (\<lambda>back.
        let test_date = app_complete_dt - timedelta back 0 0 in
        gbind (if test_type = ''ACT'' then randint 18 35 else randint 900 1550) (\<lambda>score.
        gret (application,
              [\<lparr>tst_student_id = st_student_id s, tst_test_type = test_type,
                tst_test_date = strftime_date test_date, tst_score = score\<rparr>]))))
      else gret (application, []))))))"

text \<open>The \<open>terms\<close> argument is not used.\<close>

definition generate_admissions ::
  "student_row list \<Rightarrow> term_row list \<Rightarrow> (application_row list \<times> test_row list) gen" where
  "generate_admissions students terms =
     gbind (gmap student_admission students) (\<lambda>per_student.
     gret (map fst per_student, concat (map snd per_student)))"

subsection \<open>Advising\<close>

record appointment_row =
  apt_appointment_id :: string
  apt_student_id :: int
  apt_advisor_id :: string
  apt_appointment_dt :: string
  apt_outcome :: string

record note_row =
  nt_note_id :: string
  nt_student_id :: int
  nt_advisor_id :: string
  nt_note_dt :: string
  nt_category :: string
  nt_risk_flag :: string

text \<open>
  The inner loop: \<open>k\<close> appointments of one student, with the counters \<open>appt_id\<close> and
  \<open>note_id\<close> on entry.
\<close>

fun appointments_loop ::
  "nat \<Rightarrow> student_row \<Rightarrow> advisor_row list \<Rightarrow> int \<Rightarrow> int \<Rightarrow>
   (appointment_row list \<times> note_row list) gen" where
  "appointments_loop 0 s advisors appt_id note_id = gret ([], [])"
| "appointments_loop (Suc k) s advisors appt_id note_id =
     gbind (choice advisors) (\<lambda>advisor.
     gbind (choice [2, 3, 9, 10]) (\<lambda>month.
     gbind (randint 1 28) (\<lambda>day.
     let dt = mk_datetime 2025 month day in
     gbind (choice [''Completed'', ''No Show'', ''Rescheduled'', ''Action Plan'']) (\<lambda>outcome.
     let appointment =
           \<lparr>apt_appointment_id = ''APT'' @ fmt_0d 7 appt_id, apt_student_id = st_student_id s,
            apt_advisor_id = adv_advisor_id advisor, apt_appointment_dt = strftime_date dt,
            apt_outcome = outcome\<rparr> in
     gbind py_random (\<lambda>r.
     gbind (if r < 1 / 2
            then
              gbind (choice [''Academic'', ''Financial'', ''Wellness'', ''Career'']) (\<lambda>category.
              gbind (choice [''0'', ''0'', ''1'']) (\<lambda>risk_flag.
              gret [\<lparr>nt_note_id = ''NOTE'' @ fmt_0d 7 note_id,
                     nt_student_id = st_student_id s,
                     nt_advisor_id = adv_advisor_id advisor,
                     nt_note_dt = strftime_date dt, nt_category = category,
                     nt_risk_flag = risk_flag\<rparr>]))
            else gret []) (\<lambda>new_notes.
     gbind (appointments_loop k s advisors (appt_id + 1) (note_id + int (length new_notes)))
       (\<lambda>(appointments, notes).
     gret (appointment # appointments, new_notes @ notes))))))))"

fun advising_loop ::
  "student_row list \<Rightarrow> advisor_row list \<Rightarrow> int \<Rightarrow> int \<Rightarrow>
   (appointment_row list \<times> note_row list) gen" where
  "advising_loop [] advisors appt_id note_id = gret ([], [])"
| "advising_loop (s # rest) advisors appt_id note_id =
     gbind (choice [0, 0, 1, 1, 2, 3]) (\<lambda>k.
     gbind (appointments_loop k s advisors appt_id note_id) (\<lambda>(appts, nts).
     gbind (advising_loop rest advisors (appt_id + int (length appts))
              (note_id + int (length nts))) (\<lambda>(appointments, notes).
     gret (appts @ appointments, nts @ notes))))"

definition generate_advising ::
  "student_row list \<Rightarrow> advisor_row list \<Rightarrow> (appointment_row list \<times> note_row list) gen" where
  "generate_advising students advisors = advising_loop students advisors 1 1"

subsection \<open>The script\<close>

text \<open>
  What \<open>main\<close> takes from its environment: the process's string hash, the draw sequence
  that \<open>random.seed(seed)\<close> selects, \<open>os.path.abspath\<close>, and whether \<open>os.makedirs\<close> and
  \<open>open(path, "w")\<close> succeed on a path.
\<close>

record env =
  env_hash :: "string \<Rightarrow> int"
  env_seed :: "int \<Rightarrow> nat \<Rightarrow> int"
  env_abspath :: "string \<Rightarrow> string"
  env_makedirs :: "string \<Rightarrow> bool"
  env_open :: "string \<Rightarrow> bool"

text \<open>The rows of \<open>terms.csv\<close>: the dates are formatted before they are written.\<close>

record term_csv_row =
  tc_term_id :: string
  tc_term_name :: string
  tc_start_date :: string
  tc_end_date :: string

definition term_csv :: "term_row \<Rightarrow> term_csv_row" where
  "term_csv t =
     \<lparr>tc_term_id = tm_term_id t, tc_term_name = tm_term_name t,
      tc_start_date = strftime_date (tm_start_date t),
      tc_end_date = strftime_date (tm_end_date t)\<rparr>"

datatype table =
    Students "student_row list"
  | Terms "term_csv_row list"
  | Courses "course_row list"
  | Sections "section_row list"
  | Enrollments "enrollment_row list"
  | Xwalk "xwalk_row list"
  | Logins "login_row list"
  | Submissions "submission_row list"
  | Applications "application_row list"
  | Tests "test_row list"
  | Accounts "account_row list"
  | Transactions "transaction_row list"
  | Awards "award_row list"
  | Advisors "advisor_row list"
  | Appointments "appointment_row list"
  | Notes "note_row list"

type_synonym files = "(string \<times> table) list"

text \<open>\<open>os.path.join(a, b)\<close> for a relative \<open>b\<close>.\<close>

definition path_join :: "string \<Rightarrow> string \<Rightarrow> string" where
  "path_join a b = (if a = [] \<or> last a = CHR ''/'' then a @ b else a @ ''/'' @ b)"

text \<open>
  \<open>write_csv\<close> calls in sequence: each opens its path for writing (OSError when that
  fails) and writes the header and the rows; the files written so far stay.
\<close>

fun write_all :: "env \<Rightarrow> (string \<times> table) list \<Rightarrow> files \<Rightarrow> files \<times> error option" where
  "write_all e [] fs = (fs, None)"
| "write_all e ((path, rows) # rest) fs =
     (if env_open e path then write_all e rest (fs @ [(path, rows)]) else (fs, Some OSError))"

text \<open>
  The sections of \<open>main\<close> after the reference data: each generates its tables from the
  shared random source and then writes them. An exception ends the run with the files
  written up to then.
\<close>

fun run_stages ::
  "env \<Rightarrow> ((string \<times> table) list gen) list \<Rightarrow> files \<Rightarrow> rng \<Rightarrow> files \<times> error option" where
  "run_stages e [] fs g = (fs, None)"
| "run_stages e (stage # rest) fs g =
     (case stage g of
        Inl err \<Rightarrow> (fs, Some err)
      | Inr (tables, g') \<Rightarrow>
          (case write_all e tables fs of
             (fs', Some err) \<Rightarrow> (fs', Some err)
           | (fs', None) \<Rightarrow> run_stages e rest fs' g'))"

definition output_dirs :: "env \<Rightarrow> string \<Rightarrow> string list" where
  "output_dirs e out_dir =
     (let base_dir = env_abspath e out_dir in
      [path_join base_dir ''sis'', path_join base_dir ''lms'',
       path_join base_dir ''admissions'', path_join base_dir ''financials'',
       path_join base_dir ''student_advising''])"

text \<open>
  \<open>main\<close> after \<open>parse_args\<close> (\<open>--num-students\<close>, \<open>--seed\<close> and \<open>--out-dir\<close>; argparse
  accepts every int): the files written, in order, and the exception that ended the run,
  if any.
\<close>

definition main :: "env \<Rightarrow> int \<Rightarrow> int \<Rightarrow> string \<Rightarrow> files \<times> error option" where
  "main e num_students seed out_dir =
     (let g0 = (env_seed e seed, 0);
          base_dir = env_abspath e out_dir;
          sis_dir = path_join base_dir ''sis'';
          lms_dir = path_join base_dir ''lms'';
          adm_dir = path_join base_dir ''admissions'';
          fin_dir = path_join base_dir ''financials'';
          adv_dir = path_join base_dir ''student_advising''
      in
      if \<not> list_all (env_makedirs e) [sis_dir, lms_dir, adm_dir, fin_dir, adv_dir]
      then ([], Some OSError)
      else
        let terms = generate_terms in
        case gbind (generate_catalog 120) (\<lambda>courses.
             gbind (generate_sections courses terms) (\<lambda>sections.
             gbind (generate_advisors 50) (\<lambda>advisors.
             gbind (generate_students num_students terms advisors) (\<lambda>students.
             gbind (generate_enrollments students sections terms) (\<lambda>enrollments.
             gret (courses, sections, advisors, students, enrollments)))))) g0 of
          Inl err \<Rightarrow> ([], Some err)
        | Inr ((courses, sections, advisors, students, enrollments), g1) \<Rightarrow>
            let courses_by_id = map_of (rev (map (\<lambda>c. (crs_course_id c, c)) courses)) in
            run_stages e
              [gret [(path_join sis_dir ''students.csv'', Students students),
                     (path_join sis_dir ''terms.csv'', Terms (map term_csv terms)),
                     (path_join sis_dir ''courses.csv'', Courses courses),
                     (path_join sis_dir ''sections.csv'', Sections sections),
                     (path_join sis_dir ''enrollments.csv'', Enrollments enrollments)],
               gbind (generate_lms (env_hash e) enrollments sections)
                 (\<lambda>(xwalk, lms_logins, submissions).
                  gret [(path_join lms_dir ''course_xwalk.csv'', Xwalk xwalk),
                        (path_join lms_dir ''lms_logins.csv'', Logins lms_logins),
                        (path_join lms_dir ''submissions.csv'', Submissions submissions)]),
               gbind (generate_admissions students terms) (\<lambda>(applications, tests).
                  gret [(path_join adm_dir ''applications.csv'', Applications applications),
                        (path_join adm_dir ''tests.csv'', Tests tests)]),
               gbind (generate_financials students enrollments courses_by_id)
                 (\<lambda>(student_accounts, transactions, aid_awards).
                  gret [(path_join fin_dir ''student_accounts.csv'', Accounts student_accounts),
                        (path_join fin_dir ''transactions.csv'', Transactions transactions),
                        (path_join fin_dir ''aid_awards.csv'', Awards aid_awards)]),
               gbind (generate_advising students advisors) (\<lambda>(appointments, notes).
                  gret [(path_join adv_dir ''advisors.csv'', Advisors advisors),
                        (path_join adv_dir ''appointments.csv'', Appointments appointments),
                        (path_join adv_dir ''notes.csv'', Notes notes)])]
              [] g1)"

subsection \<open>Reading the outputs\<close>

text \<open>The value of a string of decimal digits (leading zeros allowed).\<close>

definition digits_val :: "string \<Rightarrow> nat" where
  "digits_val s = foldl (\<lambda>a c. 10 * a + (of_char c - 48)) 0 s"

text \<open>
  The transactions of one \<open>(student_id, term_id)\<close> pair with a given \<open>trans_type\<close>, the aid
  awards of the pair, and the account rows of the pair.
\<close>

definition group_txs ::
  "int \<Rightarrow> string \<Rightarrow> string \<Rightarrow> transaction_row list \<Rightarrow> transaction_row list" where
  "group_txs sid tid ty txs =
     filter (\<lambda>t. tx_student_id t = sid \<and> tx_term_id t = tid \<and> tx_trans_type t = ty) txs"

definition group_awards :: "int \<Rightarrow> string \<Rightarrow> award_row list \<Rightarrow> award_row list" where
  "group_awards sid tid aws = filter (\<lambda>w. aw_student_id w = sid \<and> aw_term_id w = tid) aws"

definition group_accounts :: "int \<Rightarrow> string \<Rightarrow> account_row list \<Rightarrow> account_row list" where
  "group_accounts sid tid accts =
     filter (\<lambda>a. acc_student_id a = sid \<and> acc_term_id a = tid) accts"

text \<open>An account row that agrees with the ledger and the awards of its pair.\<close>

definition reconciled :: "account_row \<Rightarrow> transaction_row list \<Rightarrow> award_row list \<Rightarrow> bool" where
  "reconciled a txs aws \<longleftrightarrow>
     acc_balance a = round_int (acc_total_charges a - acc_total_payments a) 2 \<and>
     sum_list (map tx_amount (group_txs (acc_student_id a) (acc_term_id a) ''PAYMENT'' txs))
       + sum_list (map aw_amount (group_awards (acc_student_id a) (acc_term_id a) aws))
       = acc_total_payments a \<and>
     length (group_awards (acc_student_id a) (acc_term_id a) aws) \<le> 1 \<and>
     (\<exists>c. group_txs (acc_student_id a) (acc_term_id a) ''CHARGE'' txs = [c] \<and>
        tx_amount c = acc_total_charges a)"

text \<open>
  A section whose id is built from a course of the catalog and a term of the term list, the
  way \<open>generate_sections\<close> builds it: \<open>f"{course_id}-{term_id}-S{section_nbr:02d}"\<close>.
\<close>

definition section_of_course_term :: "course_row list \<Rightarrow> term_row list \<Rightarrow> section_row \<Rightarrow> bool" where
  "section_of_course_term courses terms sec \<longleftrightarrow>
     (\<exists>c \<in> set courses. \<exists>t \<in> set terms. \<exists>n.
        sec_course_section_id sec
          = crs_course_id c @ CHR ''-'' # tm_term_id t @ CHR ''-'' # CHR ''S'' # fmt_0d 2 n \<and>
        sec_term_id sec = tm_term_id t)"

text \<open>
  The files of the SIS, LMS and admissions sections of \<open>main\<close>, in the order in which they
  are written.
\<close>

definition partial_paths :: "env \<Rightarrow> string \<Rightarrow> string list" where
  "partial_paths e out_dir =
     (let base_dir = env_abspath e out_dir in
      map (path_join (path_join base_dir ''sis''))
        [''students.csv'', ''terms.csv'', ''courses.csv'', ''sections.csv'', ''enrollments.csv'']
      @ map (path_join (path_join base_dir ''lms''))
        [''course_xwalk.csv'', ''lms_logins.csv'', ''submissions.csv'']
      @ map (path_join (path_join base_dir ''admissions'')) [''applications.csv'', ''tests.csv''])"

subsection \<open>Concrete inputs\<close>

text \<open>A draw sequence that is constantly 0, and a one-advisor roster.\<close>

definition draws0 :: "nat \<Rightarrow> int" where
  "draws0 i = 0"

definition advisors0 :: "advisor_row list" where
  "advisors0 =
     [\<lparr>adv_advisor_id = ''ADV001'', adv_advisor_name = ''Alex Smith'',
       adv_department = ''Engineering''\<rparr>]"

definition student0 :: student_row where
  "student0 =
     \<lparr>st_student_id = 10000000, st_first_name = ''Olivia'', st_last_name = ''Smith'',
      st_email = ''olivia.smith0@example.edu'', st_dob = ''1998-01-01'', st_gender = ''F'',
      st_ethnicity = ''Not Disclosed'', st_residency = ''IN_STATE'',
      st_program = ''Undergraduate'', st_major = ''Computer Science'',
      st_admit_term_id = ''2024FA'', st_current_term_id = ''2025FA'',
      st_class_standing = ''Junior'', st_advisor_id = ''ADV001''\<rparr>"

text \<open>One course and the \<open>courses_by_id\<close> dict that holds it.\<close>

definition course0 :: course_row where
  "course0 =
     \<lparr>crs_course_id = ''CS100'', crs_subject = ''CS'', crs_catalog_nbr = ''100'',
      crs_title = ''CS Introduction'', crs_units = 3\<rparr>"

definition courses_by_id0 :: "string \<rightharpoonup> course_row" where
  "courses_by_id0 = [''CS100'' \<mapsto> course0]"

text \<open>
  Seven sections of the course, three in the prior term and four in the current term, and
  the rows that \<open>generate_enrollments\<close> and \<open>generate_financials\<close> derive for
  \<open>student0\<close> on the constant-zero draw sequence.
\<close>

definition section_of :: "string \<Rightarrow> int \<Rightarrow> section_row" where
  "section_of term_id n =
     \<lparr>sec_course_section_id = ''CS100-'' @ term_id @ ''-S'' @ fmt_0d 2 n,
      sec_course_id = ''CS100'', sec_term_id = term_id, sec_section_nbr = n,
      sec_modality = ''ONLINE''\<rparr>"

definition sections0 :: "section_row list" where
  "sections0 = map (section_of ''2025SP'') [1, 2, 3] @ map (section_of ''2025FA'') [1, 2, 3, 4]"

definition enrolled0 :: "int \<Rightarrow> enrollment_row" where
  "enrolled0 n =
     \<lparr>enr_student_id = 10000000,
      enr_course_section_id = ''CS100-2025FA-S'' @ fmt_0d 2 n,
      enr_term_id = ''2025FA'', enr_enrollment_status = ''ENROLLED'', enr_grade_letter = [],
      enr_grade_points = None\<rparr>"

definition completed0 :: "int \<Rightarrow> enrollment_row" where
  "completed0 n =
     \<lparr>enr_student_id = 10000000,
      enr_course_section_id = ''CS100-2025SP-S'' @ fmt_0d 2 n,
      enr_term_id = ''2025SP'', enr_enrollment_status = ''COMPLETED'',
      enr_grade_letter = ''A'', enr_grade_points = Some 4\<rparr>"

definition enrollments0 :: "enrollment_row list" where
  "enrollments0 = map enrolled0 [1, 2, 3, 4] @ map completed0 [1, 2, 3]"

definition accounts0 :: "account_row list" where
  "accounts0 =
     [\<lparr>acc_student_id = 10000000, acc_term_id = ''2025FA'', acc_total_charges = 4300,
       acc_total_payments = 700, acc_balance = 3600\<rparr>,
      \<lparr>acc_student_id = 10000000, acc_term_id = ''2025SP'', acc_total_charges = 3250,
       acc_total_payments = 700, acc_balance = 2550\<rparr>]"

definition transactions0 :: "transaction_row list" where
  "transactions0 =
     [\<lparr>tx_transaction_id = ''TX000000001'', tx_student_id = 10000000, tx_term_id = ''2025FA'',
       tx_trans_dt = ''2025-09-01'', tx_trans_type = ''PAYMENT'', tx_amount = 200,
       tx_method = ''CARD''\<rparr>,
      \<lparr>tx_transaction_id = ''TX000000002'', tx_student_id = 10000000, tx_term_id = ''2025FA'',
       tx_trans_dt = ''2025-08-28'', tx_trans_type = ''CHARGE'', tx_amount = 4300,
       tx_method = ''BILLING''\<rparr>,
      \<lparr>tx_transaction_id = ''TX000000003'', tx_student_id = 10000000, tx_term_id = ''2025SP'',
       tx_trans_dt = ''2025-02-01'', tx_trans_type = ''PAYMENT'', tx_amount = 200,
       tx_method = ''CARD''\<rparr>,
      \<lparr>tx_transaction_id = ''TX000000004'', tx_student_id = 10000000, tx_term_id = ''2025SP'',
       tx_trans_dt = ''2025-01-20'', tx_trans_type = ''CHARGE'', tx_amount = 3250,
       tx_method = ''BILLING''\<rparr>]"

definition aid_awards0 :: "award_row list" where
  "aid_awards0 =
     [\<lparr>aw_award_id = ''AWD0000001'', aw_student_id = 10000000, aw_term_id = ''2025FA'',
       aw_aid_type = ''Grant'', aw_amount = 500, aw_disbursed_dt = ''2025-08-20''\<rparr>,
      \<lparr>aw_award_id = ''AWD0000002'', aw_student_id = 10000000, aw_term_id = ''2025SP'',
       aw_aid_type = ''Grant'', aw_amount = 500, aw_disbursed_dt = ''2025-01-10''\<rparr>]"

text \<open>
  The catalog, sections and enrollments of a run on the constant-zero draw sequence: the
  four courses drawn share one \<open>course_id\<close>, so their sections share ids within a term.
\<close>

definition math_course :: course_row where
  "math_course =
     \<lparr>crs_course_id = ''MATH100'', crs_subject = ''MATH'', crs_catalog_nbr = ''100'',
      crs_title = ''MATH Introduction'', crs_units = 3\<rparr>"

definition courses1 :: "course_row list" where
  "courses1 = replicate 4 math_course"

definition math_section :: "string \<Rightarrow> section_row" where
  "math_section term_id =
     \<lparr>sec_course_section_id = ''MATH100-'' @ term_id @ ''-S01'', sec_course_id = ''MATH100'',
      sec_term_id = term_id, sec_section_nbr = 1, sec_modality = ''INPERSON''\<rparr>"

definition sections1 :: "section_row list" where
  "sections1 =
     replicate 4 (math_section ''2024FA'') @ replicate 4 (math_section ''2025SP'')
       @ replicate 4 (math_section ''2025FA'')"

definition math_enrolled :: enrollment_row where
  "math_enrolled =
     \<lparr>enr_student_id = 10000000, enr_course_section_id = ''MATH100-2025FA-S01'',
      enr_term_id = ''2025FA'', enr_enrollment_status = ''ENROLLED'', enr_grade_letter = [],
      enr_grade_points = None\<rparr>"

definition math_completed :: enrollment_row where
  "math_completed =
     \<lparr>enr_student_id = 10000000, enr_course_section_id = ''MATH100-2025SP-S01'',
      enr_term_id = ''2025SP'', enr_enrollment_status = ''COMPLETED'',
      enr_grade_letter = ''A'', enr_grade_points = Some 4\<rparr>"

definition enrollments1 :: "enrollment_row list" where
  "enrollments1 = replicate 4 math_enrolled @ replicate 3 math_completed"

text \<open>
  Two stand-ins for the string hash of two interpreter processes, and a draw sequence
  whose every draw selects the last value of its range (\<open>-1 mod m = m - 1\<close>), with the LMS
  rows of one enrollment on it.
\<close>

definition hash_a :: "string \<Rightarrow> int" where
  "hash_a s = int (length s)"

definition hash_b :: "string \<Rightarrow> int" where
  "hash_b s = int (length s) + 1"

definition draws_last :: "nat \<Rightarrow> int" where
  "draws_last i = - 1"

definition xwalk_a :: "xwalk_row list" where
  "xwalk_a = [\<lparr>xw_course_section_id = ''MATH100-2025FA-S01'', xw_lms_course_id = ''LMS-0000018''\<rparr>]"

definition xwalk_b :: "xwalk_row list" where
  "xwalk_b = [\<lparr>xw_course_section_id = ''MATH100-2025FA-S01'', xw_lms_course_id = ''LMS-0000019''\<rparr>]"

definition login_last :: "string \<Rightarrow> login_row" where
  "login_last lms_course_id =
     \<lparr>log_student_id = 10000000, log_lms_course_id = lms_course_id,
      log_event_ts = ''2025-12-12 20:59:00'', log_event_type = ''resource_click''\<rparr>"

definition submission_last :: "string \<Rightarrow> int \<Rightarrow> submission_row" where
  "submission_last lms_course_id aidx =
     \<lparr>sub_student_id = 10000000, sub_lms_course_id = lms_course_id,
      sub_assignment_id = ''A'' @ fmt_0d 2 aidx, sub_submitted_ts = ''2025-12-12 00:00:00'',
      sub_score = 100, sub_max_score = 100, sub_late_flag = ''1''\<rparr>"

text \<open>
  An environment: a stand-in string hash, the constant-zero draw sequence for every seed,
  a fixed working directory, and a file system that accepts every directory and file.
\<close>

definition env0 :: env where
  "env0 =
     \<lparr>env_hash = hash_a, env_seed = (\<lambda>seed. draws0),
      env_abspath = (\<lambda>p. ''/work/'' @ p), env_makedirs = (\<lambda>p. True),
      env_open = (\<lambda>p. True)\<rparr>"

text \<open>\<open>yields m y\<close>: some state of the random source makes \<open>m\<close> return \<open>y\<close>.\<close>

definition yields :: "'a gen \<Rightarrow> 'a \<Rightarrow> bool" where
  "yields m y \<longleftrightarrow> (\<exists>g g'. m g = Inr (y, g'))"

text \<open>\<open>gpost m P\<close>: whenever \<open>m\<close> returns, the value it returns satisfies \<open>P\<close>.\<close>

definition gpost :: "'a gen \<Rightarrow> ('a \<Rightarrow> bool) \<Rightarrow> bool" where
  "gpost m P \<longleftrightarrow> (\<forall>g y g'. m g = Inr (y, g') \<longrightarrow> P y)"

text \<open>\<open>gok m\<close>: \<open>m\<close> returns from every state of the random source.\<close>

definition gok :: "'a gen \<Rightarrow> bool" where
  "gok m \<longleftrightarrow> (\<forall>g. \<exists>y g'. m g = Inr (y, g'))"

section \<open>Properties\<close>

subsection \<open>The generator monad\<close>

lemma gbind_Inr: "gbind m f g = Inr r \<longleftrightarrow> (\<exists>x g'. m g = Inr (x, g') \<and> f x g' = Inr r)"
  by (auto simp: gbind_def split: sum.splits)

lemma gret_Inr: "gret x g = Inr r \<longleftrightarrow> r = (x, g)"
  by (auto simp: gret_def)

lemma gthrow_Inr: "gthrow e g \<noteq> Inr r"
  by (simp add: gthrow_def)

lemma gmap_Inr:
  "gmap f xs g = Inr (ys, g') \<Longrightarrow> list_all2 (\<lambda>x y. yields (f x) y) xs ys"
proof (induction xs arbitrary: ys g g')
  case Nil
  then show ?case by (simp add: gret_Inr)
next
  case (Cons x xs)
  from Cons.prems obtain y g1 ys' where
    fx: "f x g = Inr (y, g1)" and rest: "gmap f xs g1 = Inr (ys', g')" and ys: "ys = y # ys'"
    by (auto simp: gbind_Inr gret_Inr)
  from fx have "yields (f x) y" unfolding yields_def by blast
  with Cons.IH [OF rest] ys show ?case by simp
qed

lemma gmap_member:
  assumes "gmap f xs g = Inr (ys, g')" and "y \<in> set ys"
  shows "\<exists>x \<in> set xs. yields (f x) y"
proof -
  from assms(1) have all2: "list_all2 (\<lambda>x y. yields (f x) y) xs ys"
    by (rule gmap_Inr)
  from assms(2) obtain i where i: "i < length ys" "ys ! i = y"
    by (auto simp: in_set_conv_nth)
  from all2 i have "yields (f (xs ! i)) y" "i < length xs"
    by (auto simp: list_all2_conv_all_nth)
  then show ?thesis using nth_mem by blast
qed

lemma map_sum_fst_Inr: "map_sum id fst r = Inr x \<Longrightarrow> \<exists>g'. r = Inr (x, g')"
  by (cases r) auto

lemma nat_mod_length: "xs \<noteq> [] \<Longrightarrow> nat (r mod int (length xs)) < length xs"
  by (simp add: nat_less_iff)

lemma next_raw_Inr:
  "next_raw g = Inr (r, g') \<longleftrightarrow> r = fst g (snd g) \<and> g' = (fst g, Suc (snd g))"
  by (auto simp: next_raw_def)

lemma choice_Inr: "choice xs g = Inr (x, g') \<Longrightarrow> x \<in> set xs"
  by (auto simp: choice_def gbind_Inr gret_Inr gthrow_Inr next_raw_Inr nat_mod_length
      split: if_splits)

lemma py_last_Inr: "py_last xs g = Inr (x, g') \<longleftrightarrow> xs \<noteq> [] \<and> x = last xs \<and> g' = g"
  by (auto simp: py_last_def gret_Inr gthrow_Inr)

lemma py_index_Inr: "py_index xs x g = Inr (i, g') \<longleftrightarrow> index_from 0 xs x = Some i \<and> g' = g"
  by (auto simp: py_index_def gret_Inr gthrow_Inr split: option.splits)

lemma index_from_nth:
  "distinct xs \<Longrightarrow> j < length xs \<Longrightarrow> index_from k xs (xs ! j) = Some (k + j)"
proof (induction xs arbitrary: k j)
  case Nil
  then show ?case by simp
next
  case (Cons y ys)
  show ?case
  proof (cases j)
    case 0
    then show ?thesis by simp
  next
    case (Suc j')
    with Cons.prems have "ys ! j' \<noteq> y" by auto
    with Cons Suc show ?thesis by auto
  qed
qed

subsection \<open>Terms and students\<close>

lemma generate_terms_ids: "map tm_term_id generate_terms = [''2024FA'', ''2025SP'', ''2025FA'']"
  by (simp add: generate_terms_def)

lemma generate_terms_chronological:
  "map tm_start_date generate_terms = [63860313600, 63872409600, 63891763200]"
  "map tm_end_date generate_terms = [63869731200, 63881827200, 63901180800]"
  by (simp_all add: generate_terms_def mk_datetime_def ymd2ord_def days_before_year_def
      days_before_month_def days_before_month_tab_def is_leap_def)

lemma generate_student_fields:
  assumes "yields (generate_student tids advisors i) s"
  shows "tids \<noteq> [] \<and> st_admit_term_id s \<in> set (butlast tids) \<and>
    st_current_term_id s = last tids \<and>
    (\<exists>ci ai. index_from 0 tids (st_current_term_id s) = Some ci \<and>
       index_from 0 tids (st_admit_term_id s) = Some ai \<and>
       st_class_standing s = standings ! nat (min (max (int ci - int ai) 0) 3))"
  using assms unfolding yields_def generate_student_def Let_def
  by (auto simp: gbind_Inr gret_Inr py_last_Inr py_index_Inr dest!: choice_Inr)

lemma generate_students_terms:
  assumes dist: "distinct (map tm_term_id terms)"
    and run: "generate_students n terms advisors g = Inr (students, g')"
    and mem: "s \<in> set students"
  shows "terms \<noteq> [] \<and> st_current_term_id s = tm_term_id (last terms) \<and>
    (\<exists>ai ci. index_from 0 (map tm_term_id terms) (st_admit_term_id s) = Some ai \<and>
       index_from 0 (map tm_term_id terms) (st_current_term_id s) = Some ci \<and> ai < ci \<and>
       st_class_standing s = standings ! nat (min (max (int ci - int ai) 0) 3))"
proof -
  let ?tids = "map tm_term_id terms"
  from run mem obtain i where "yields (generate_student ?tids advisors i) s"
    unfolding generate_students_def Let_def by (blast dest: gmap_member)
  from generate_student_fields [OF this] obtain ci ai where
    ne: "?tids \<noteq> []" and adm: "st_admit_term_id s \<in> set (butlast ?tids)"
    and cur: "st_current_term_id s = last ?tids"
    and ci: "index_from 0 ?tids (st_current_term_id s) = Some ci"
    and ai: "index_from 0 ?tids (st_admit_term_id s) = Some ai"
    and cs: "st_class_standing s = standings ! nat (min (max (int ci - int ai) 0) 3)"
    by blast
  from adm obtain j where j: "j < length (butlast ?tids)" "butlast ?tids ! j = st_admit_term_id s"
    by (auto simp: in_set_conv_nth)
  then have j': "j < length ?tids - 1" "?tids ! j = st_admit_term_id s"
    by (simp_all add: nth_butlast)
  from dist j' have "index_from 0 ?tids (st_admit_term_id s) = Some (0 + j)"
    using index_from_nth [of ?tids j 0] by simp
  with ai have aij: "ai = j" by simp
  from ne have "last ?tids = ?tids ! (length ?tids - 1)"
    by (simp add: last_conv_nth)
  with dist ne cur have "index_from 0 ?tids (st_current_term_id s) = Some (0 + (length ?tids - 1))"
    using index_from_nth [of ?tids "length ?tids - 1" 0] by simp
  with ci have cij: "ci = length ?tids - 1" by simp
  from ne have "terms \<noteq> []" by simp
  moreover from cur this have "st_current_term_id s = tm_term_id (last terms)"
    by (simp add: last_map)
  ultimately show ?thesis using ai ci cs aij cij j'(1) by auto
qed

lemma run_students0:
  "map_sum id fst (generate_students 1 generate_terms advisors0 (draws0, 0)) = Inr [student0]"
  by code_simp

text \<open>
  C8. Every generated student's \<open>admit_term_id\<close> stands strictly before its
  \<open>current_term_id\<close> in the term list (positions as \<open>list.index\<close> finds them), and
  \<open>current_term_id\<close> is the id of the last term of the list. The term list carries
  pairwise different ids, as the fixed list of \<open>generate_terms\<close> does.
\<close>

theorem admit_precedes_current:
  assumes "distinct (map tm_term_id terms)"
    and "generate_students n terms advisors g = Inr (students, g')"
    and "s \<in> set students"
  shows "(\<exists>ai ci. index_from 0 (map tm_term_id terms) (st_admit_term_id s) = Some ai \<and>
            index_from 0 (map tm_term_id terms) (st_current_term_id s) = Some ci \<and> ai < ci) \<and>
         st_current_term_id s = tm_term_id (last terms)"
  using generate_students_terms [OF assms] by blast

theorem admit_precedes_current_witness:
  "distinct (map tm_term_id generate_terms) \<and>
   map_sum id fst (generate_students 1 generate_terms advisors0 (draws0, 0)) = Inr [student0] \<and>
   (\<exists>ai ci. index_from 0 (map tm_term_id generate_terms) (st_admit_term_id student0) = Some ai \<and>
      index_from 0 (map tm_term_id generate_terms) (st_current_term_id student0) = Some ci \<and>
      ai < ci) \<and>
   st_current_term_id student0 = tm_term_id (last generate_terms)"
proof -
  have d: "distinct (map tm_term_id generate_terms)"
    by (simp add: generate_terms_ids)
  from map_sum_fst_Inr [OF run_students0] obtain g' where
    r: "generate_students 1 generate_terms advisors0 (draws0, 0) = Inr ([student0], g')" ..
  have m: "student0 \<in> set [student0]" by simp
  from admit_precedes_current [OF d r m] d run_students0 show ?thesis by blast
qed

text \<open>
  C2 (as the code has it). A student admitted in the first term whose current term is the
  third (last) term is two terms apart, and \<open>generate_students\<close> assigns the standing at
  index 2 of the ladder: \<open>Junior\<close>. The clamp at 3 is not reached with three terms.
\<close>

theorem first_to_third_term_is_junior:
  assumes "generate_students n generate_terms advisors g = Inr (students, g')"
    and "s \<in> set students"
    and "st_admit_term_id s = tm_term_id (generate_terms ! 0)"
    and "st_current_term_id s = tm_term_id (generate_terms ! 2)"
  shows "st_class_standing s = ''Junior''"
proof -
  have d: "distinct (map tm_term_id generate_terms)"
    by (simp add: generate_terms_ids)
  from generate_students_terms [OF d assms(1,2)] obtain ai ci where
    ai: "index_from 0 (map tm_term_id generate_terms) (st_admit_term_id s) = Some ai"
    and ci: "index_from 0 (map tm_term_id generate_terms) (st_current_term_id s) = Some ci"
    and cs: "st_class_standing s = standings ! nat (min (max (int ci - int ai) 0) 3)"
    by blast
  from ai assms(3) have "ai = 0" by (simp add: generate_terms_def)
  moreover from ci assms(4) have "ci = 2" by (simp add: generate_terms_def)
  ultimately show ?thesis using cs by (simp add: standings_def)
qed

theorem first_to_third_term_is_junior_witness:
  "map_sum id fst (generate_students 1 generate_terms advisors0 (draws0, 0)) = Inr [student0] \<and>
   st_admit_term_id student0 = tm_term_id (generate_terms ! 0) \<and>
   st_current_term_id student0 = tm_term_id (generate_terms ! 2) \<and>
   st_class_standing student0 = ''Junior''"
proof -
  from map_sum_fst_Inr [OF run_students0] obtain g' where
    r: "generate_students 1 generate_terms advisors0 (draws0, 0) = Inr ([student0], g')" ..
  have m: "student0 \<in> set [student0]" by simp
  have a: "st_admit_term_id student0 = tm_term_id (generate_terms ! 0)"
    by (simp add: student0_def generate_terms_def)
  have c: "st_current_term_id student0 = tm_term_id (generate_terms ! 2)"
    by (simp add: student0_def generate_terms_def)
  from first_to_third_term_is_junior [OF r m a c] run_students0 a c show ?thesis by blast
qed

text \<open>
  The run on the constant-zero draw sequence produces a student admitted in the first
  term, current in the third, whose standing is not \<open>Senior\<close>.
\<close>

theorem first_to_third_term_not_senior:
  "map_sum id fst (generate_students 1 generate_terms advisors0 (draws0, 0)) = Inr [student0] \<and>
   st_admit_term_id student0 = tm_term_id (generate_terms ! 0) \<and>
   st_current_term_id student0 = tm_term_id (generate_terms ! 2) \<and>
   st_class_standing student0 \<noteq> ''Senior''"
proof -
  have "map_sum id fst (generate_students 1 generate_terms advisors0 (draws0, 0)) = Inr [student0]"
    by code_simp
  then show ?thesis
    by (simp add: student0_def generate_terms_def)
qed

subsection \<open>Decimal formatting is injective\<close>

lemma digit_char_val: "d < 10 \<Longrightarrow> (of_char (digit_char d) :: nat) - 48 = d"
proof -
  assume "d < 10"
  then have "d \<in> {0, 1, 2, 3, 4, 5, 6, 7, 8, 9}" by auto
  then show ?thesis by (auto simp: digit_char_def)
qed

lemma digits_val_snoc: "digits_val (s @ [c]) = 10 * digits_val s + (of_char c - 48)"
  by (simp add: digits_val_def)

lemma digits_val_str_nat: "digits_val (str_nat n) = n"
proof (induction n rule: str_nat.induct)
  case (1 n)
  show ?case
  proof (cases "n < 10")
    case True
    then show ?thesis
      by (subst str_nat.simps) (simp add: digits_val_def digit_char_val)
  next
    case False
    with 1 have "digits_val (str_nat (n div 10)) = n div 10" by simp
    with False show ?thesis
      by (subst str_nat.simps) (simp add: digits_val_snoc digit_char_val)
  qed
qed

lemma digits_val_zeros: "digits_val (replicate k CHR ''0'' @ s) = digits_val s"
proof (induction k)
  case 0
  then show ?case by simp
next
  case (Suc k)
  have "foldl (\<lambda>a c. 10 * a + (of_char c - 48)) 0 (CHR ''0'' # replicate k CHR ''0'' @ s)
      = foldl (\<lambda>a c. 10 * a + (of_char c - 48)) (0::nat) (replicate k CHR ''0'' @ s)"
    by simp
  with Suc show ?case by (simp add: digits_val_def)
qed

lemma digits_val_fmt: "0 \<le> i \<Longrightarrow> digits_val (fmt_0d w i) = nat i"
  by (simp add: fmt_0d_def zfill_def digits_val_zeros digits_val_str_nat)

lemma fmt_0d_inj: "0 \<le> i \<Longrightarrow> 0 \<le> j \<Longrightarrow> fmt_0d w i = fmt_0d w j \<Longrightarrow> i = j"
  using digits_val_fmt [of i w] digits_val_fmt [of j w] by simp

subsection \<open>Grouping\<close>

lemma setdefault_append_keys_in:
  "k \<in> fst ` set d \<Longrightarrow> map fst (setdefault_append k v d) = map fst d"
  by (induction d) force+

lemma setdefault_append_keys_out:
  "k \<notin> fst ` set d \<Longrightarrow> map fst (setdefault_append k v d) = map fst d @ [k]"
  by (induction d) auto

lemma setdefault_append_keys:
  "map fst (setdefault_append k v d) = (if k \<in> set (map fst d) then map fst d else map fst d @ [k])"
  by (simp add: setdefault_append_keys_in setdefault_append_keys_out)

lemma setdefault_append_map_of:
  "map_of (setdefault_append k v d) =
     (map_of d)(k \<mapsto> (case map_of d k of None \<Rightarrow> [v] | Some vs \<Rightarrow> vs @ [v]))"
  by (induction d) (auto simp: fun_eq_iff)

lemma foldl_setdefault_keys:
  "distinct (map fst d) \<Longrightarrow>
   distinct (map fst (foldl (\<lambda>d x. setdefault_append (key x) x d) d xs)) \<and>
   set (map fst (foldl (\<lambda>d x. setdefault_append (key x) x d) d xs)) = set (map fst d) \<union> key ` set xs"
proof (induction xs arbitrary: d)
  case Nil
  then show ?case by simp
next
  case (Cons x xs)
  have d': "distinct (map fst (setdefault_append (key x) x d))"
    using Cons.prems by (simp add: setdefault_append_keys)
  have s': "set (map fst (setdefault_append (key x) x d)) = insert (key x) (set (map fst d))"
    by (auto simp: setdefault_append_keys)
  from Cons.IH [OF d'] s' show ?case by auto
qed

lemma group_by_distinct: "distinct (map fst (group_by key xs))"
  unfolding group_by_def using foldl_setdefault_keys [of "[]" key xs] by simp

lemma group_by_keys: "set (map fst (group_by key xs)) = key ` set xs"
  unfolding group_by_def using foldl_setdefault_keys [of "[]" key xs] by simp

lemma foldl_setdefault_map_of:
  "map_of (foldl (\<lambda>d x. setdefault_append (key x) x d) d xs) k =
     (case map_of d k of
        None \<Rightarrow> (if k \<in> key ` set xs then Some (filter (\<lambda>x. key x = k) xs) else None)
      | Some vs \<Rightarrow> Some (vs @ filter (\<lambda>x. key x = k) xs))"
proof (induction xs arbitrary: d)
  case Nil
  then show ?case by (simp split: option.splits)
next
  case (Cons x xs)
  show ?case
    by (simp add: Cons.IH setdefault_append_map_of split: option.splits)
qed

lemma group_by_map_of:
  "map_of (group_by key xs) k =
     (if k \<in> key ` set xs then Some (filter (\<lambda>x. key x = k) xs) else None)"
  unfolding group_by_def by (simp add: foldl_setdefault_map_of)

subsection \<open>Financials\<close>

lemma randint_Inr:
  assumes "randint a b g = Inr (x, g')"
  shows "a \<le> x \<and> x \<le> b"
proof -
  from assms obtain r where ab: "a \<le> b" and x: "x = a + r mod (b - a + 1)"
    by (auto simp: randint_def gbind_Inr gret_Inr gthrow_Inr next_raw_Inr split: if_splits)
  from ab have "0 \<le> r mod (b - a + 1)"
    by simp
  moreover from ab have "r mod (b - a + 1) < b - a + 1"
    using pos_mod_bound [of "b - a + 1" r] by linarith
  ultimately show ?thesis using x by linarith
qed

lemma payments_loop_Inr:
  "payments_loop n sid tid t g = Inr (rows, g') \<Longrightarrow>
   length rows = n \<and>
   (\<forall>r \<in> set rows. tx_student_id r = sid \<and> tx_term_id r = tid \<and> tx_trans_type r = ''PAYMENT'') \<and>
   (\<forall>k < n. tx_transaction_id (rows ! k) = ''TX'' @ fmt_0d 9 (t + int k))"
proof (induction n arbitrary: t g rows)
  case 0
  then show ?case by (simp add: gret_Inr)
next
  case (Suc n)
  from Suc.prems obtain row rest g1 where
    rest: "payments_loop n sid tid (t + 1) g1 = Inr (rest, g')" and rows: "rows = row # rest"
    and row: "tx_student_id row = sid" "tx_term_id row = tid" "tx_trans_type row = ''PAYMENT''"
      "tx_transaction_id row = ''TX'' @ fmt_0d 9 t"
    by (auto simp: gbind_Inr gret_Inr)
  from Suc.IH [OF rest] have
    ih: "length rest = n"
      "\<forall>r \<in> set rest. tx_student_id r = sid \<and> tx_term_id r = tid \<and> tx_trans_type r = ''PAYMENT''"
      "\<forall>k < n. tx_transaction_id (rest ! k) = ''TX'' @ fmt_0d 9 (t + 1 + int k)"
    by simp_all
  have "tx_transaction_id (rows ! k) = ''TX'' @ fmt_0d 9 (t + int k)" if "k < Suc n" for k
  proof (cases k)
    case 0
    with rows row show ?thesis by simp
  next
    case (Suc k')
    with that ih(3) have "tx_transaction_id (rest ! k') = ''TX'' @ fmt_0d 9 (t + 1 + int k')"
      by simp
    moreover have "t + 1 + int k' = t + int (Suc k')" by simp
    ultimately show ?thesis using rows Suc by simp
  qed
  with ih(1,2) rows row(1,2,3) show ?case by simp
qed


lemma round_int_nonneg: "0 \<le> nd \<Longrightarrow> round_int x nd = x"
  by (simp add: round_int_def)

lemma filter_all: "\<forall>x \<in> set xs. P x \<Longrightarrow> filter P xs = xs"
  by (induction xs) auto

lemma filter_none: "\<forall>x \<in> set xs. \<not> P x \<Longrightarrow> filter P xs = []"
  by (induction xs) auto

lemma financial_group_Inr:
  assumes "financial_group u ((sid, tid), enrs) t w g = Inr ((acct, txs, aws), g')"
  shows "acc_student_id acct = sid \<and> acc_term_id acct = tid \<and>
    (\<forall>x \<in> set txs. tx_student_id x = sid \<and> tx_term_id x = tid) \<and>
    (\<forall>x \<in> set aws. aw_student_id x = sid \<and> aw_term_id x = tid) \<and>
    acc_balance acct = round_int (acc_total_charges acct - acc_total_payments acct) 2 \<and>
    sum_list (map tx_amount (filter (\<lambda>x. tx_trans_type x = ''PAYMENT'') txs))
      + sum_list (map aw_amount aws) = acc_total_payments acct \<and>
    length aws \<le> 1 \<and>
    (\<exists>c. filter (\<lambda>x. tx_trans_type x = ''CHARGE'') txs = [c] \<and>
       tx_amount c = acc_total_charges acct) \<and>
    (\<forall>k < length txs. tx_transaction_id (txs ! k) = ''TX'' @ fmt_0d 9 (t + int k))"
proof -
  from assms obtain total_charges aid n payment_rows charge g1 g2 where
    aws: "(aid = 0 \<and> aws = []) \<or>
          (\<exists>a. aws = [a] \<and> aw_amount a = aid \<and> aw_student_id a = sid \<and> aw_term_id a = tid)"
    and pl: "payments_loop n sid tid t g1 = Inr (payment_rows, g2)"
    and txs: "txs = payment_rows @ [charge]"
    and charge: "tx_student_id charge = sid" "tx_term_id charge = tid"
      "tx_trans_type charge = ''CHARGE''" "tx_amount charge = total_charges"
      "tx_transaction_id charge = ''TX'' @ fmt_0d 9 (t + int n)"
    and acct: "acc_student_id acct = sid" "acc_term_id acct = tid"
      "acc_total_charges acct = total_charges"
      "acc_total_payments acct = sum_list (map tx_amount payment_rows) + aid"
      "acc_balance acct = total_charges - (sum_list (map tx_amount payment_rows) + aid)"
    unfolding financial_group_def Let_def
    by (auto simp: gbind_Inr gret_Inr round_int_nonneg split: if_splits)
  from payments_loop_Inr [OF pl] have
    p: "length payment_rows = n"
      "\<forall>r \<in> set payment_rows. tx_student_id r = sid \<and> tx_term_id r = tid \<and> tx_trans_type r = ''PAYMENT''"
      "\<forall>k < n. tx_transaction_id (payment_rows ! k) = ''TX'' @ fmt_0d 9 (t + int k)"
    by simp_all
  from p(2) have fp: "filter (\<lambda>x. tx_trans_type x = ''PAYMENT'') payment_rows = payment_rows"
    by (simp add: filter_all)
  from p(2) have fc: "filter (\<lambda>x. tx_trans_type x = ''CHARGE'') payment_rows = []"
    by (simp add: filter_none)
  have ids: "tx_transaction_id (txs ! k) = ''TX'' @ fmt_0d 9 (t + int k)" if "k < length txs" for k
  proof (cases "k < n")
    case True
    with p(1,3) txs show ?thesis by (simp add: nth_append)
  next
    case False
    with that txs p(1) have "k = n" by simp
    with txs p(1) charge(5) show ?thesis by (simp add: nth_append)
  qed
  from aws have "sum_list (map aw_amount aws) = aid" "length aws \<le> 1"
    "\<forall>x \<in> set aws. aw_student_id x = sid \<and> aw_term_id x = tid"
    by auto
  with acct p(2) txs charge fp fc ids show ?thesis
    by (simp add: round_int_nonneg)
qed

lemma group_txs_append: "group_txs s t ty (xs @ ys) = group_txs s t ty xs @ group_txs s t ty ys"
  by (simp add: group_txs_def)

lemma group_txs_other:
  "\<forall>x \<in> set xs. (tx_student_id x, tx_term_id x) \<noteq> (s, t) \<Longrightarrow> group_txs s t ty xs = []"
  unfolding group_txs_def by (rule filter_none) auto

lemma group_txs_same:
  "\<forall>x \<in> set xs. tx_student_id x = s \<and> tx_term_id x = t \<Longrightarrow>
   group_txs s t ty xs = filter (\<lambda>x. tx_trans_type x = ty) xs"
  unfolding group_txs_def by (induction xs) auto

lemma group_awards_append: "group_awards s t (xs @ ys) = group_awards s t xs @ group_awards s t ys"
  by (simp add: group_awards_def)

lemma group_awards_other:
  "\<forall>x \<in> set xs. (aw_student_id x, aw_term_id x) \<noteq> (s, t) \<Longrightarrow> group_awards s t xs = []"
  unfolding group_awards_def by (rule filter_none) auto

lemma group_awards_same:
  "\<forall>x \<in> set xs. aw_student_id x = s \<and> aw_term_id x = t \<Longrightarrow> group_awards s t xs = xs"
  unfolding group_awards_def by (rule filter_all) auto

lemma financials_loop_Inr:
  assumes "distinct (map fst groups)"
    and "financials_loop u groups t w g = Inr ((accts, txs, aws), g')"
  shows "map (\<lambda>a. (acc_student_id a, acc_term_id a)) accts = map fst groups \<and>
    (\<forall>x \<in> set txs. (tx_student_id x, tx_term_id x) \<in> fst ` set groups) \<and>
    (\<forall>x \<in> set aws. (aw_student_id x, aw_term_id x) \<in> fst ` set groups) \<and>
    (\<forall>a \<in> set accts. reconciled a txs aws) \<and>
    (\<forall>k < length txs. tx_transaction_id (txs ! k) = ''TX'' @ fmt_0d 9 (t + int k))"
  using assms
proof (induction groups arbitrary: t w g accts txs aws)
  case Nil
  then show ?case by (simp add: gret_Inr)
next
  case (Cons grp rest)
  obtain sid tid enrs where grp: "grp = ((sid, tid), enrs)"
    by (metis prod.collapse)
  from Cons.prems(2) obtain acct0 txs0 aws0 g1 accts' txs' aws' where
    fg: "financial_group u ((sid, tid), enrs) t w g = Inr ((acct0, txs0, aws0), g1)"
    and fl: "financials_loop u rest (t + int (length txs0)) (w + int (length aws0)) g1
              = Inr ((accts', txs', aws'), g')"
    and res: "accts = acct0 # accts'" "txs = txs0 @ txs'" "aws = aws0 @ aws'"
    unfolding grp by (auto simp: gbind_Inr gret_Inr)
  from Cons.prems(1) have drest: "distinct (map fst rest)" and fresh: "(sid, tid) \<notin> fst ` set rest"
    by (simp_all add: grp)
  from financial_group_Inr [OF fg] have
    a0: "acc_student_id acct0 = sid" "acc_term_id acct0 = tid"
    and t0: "\<forall>x \<in> set txs0. tx_student_id x = sid \<and> tx_term_id x = tid"
    and w0: "\<forall>x \<in> set aws0. aw_student_id x = sid \<and> aw_term_id x = tid"
    and bal0: "acc_balance acct0 = round_int (acc_total_charges acct0 - acc_total_payments acct0) 2"
    and pay0: "sum_list (map tx_amount (filter (\<lambda>x. tx_trans_type x = ''PAYMENT'') txs0))
        + sum_list (map aw_amount aws0) = acc_total_payments acct0"
    and len0: "length aws0 \<le> 1"
    and chg0: "\<exists>c. filter (\<lambda>x. tx_trans_type x = ''CHARGE'') txs0 = [c] \<and>
        tx_amount c = acc_total_charges acct0"
    and ids0: "\<forall>k < length txs0. tx_transaction_id (txs0 ! k) = ''TX'' @ fmt_0d 9 (t + int k)"
    by simp_all
  from Cons.IH [OF drest fl] have
    keys': "map (\<lambda>a. (acc_student_id a, acc_term_id a)) accts' = map fst rest"
    and t': "\<forall>x \<in> set txs'. (tx_student_id x, tx_term_id x) \<in> fst ` set rest"
    and w': "\<forall>x \<in> set aws'. (aw_student_id x, aw_term_id x) \<in> fst ` set rest"
    and rec': "\<forall>a \<in> set accts'. reconciled a txs' aws'"
    and ids': "\<forall>k < length txs'. tx_transaction_id (txs' ! k)
        = ''TX'' @ fmt_0d 9 (t + int (length txs0) + int k)"
    by simp_all
  have keys: "map (\<lambda>a. (acc_student_id a, acc_term_id a)) accts = map fst (grp # rest)"
    using keys' a0 res(1) grp by simp
  have tk: "\<forall>x \<in> set txs. (tx_student_id x, tx_term_id x) \<in> fst ` set (grp # rest)"
    using t0 t' res(2) grp by auto
  have wk: "\<forall>x \<in> set aws. (aw_student_id x, aw_term_id x) \<in> fst ` set (grp # rest)"
    using w0 w' res(3) grp by auto
  from t' fresh have t'other: "\<forall>x \<in> set txs'. (tx_student_id x, tx_term_id x) \<noteq> (sid, tid)"
    by metis
  from w' fresh have w'other: "\<forall>x \<in> set aws'. (aw_student_id x, aw_term_id x) \<noteq> (sid, tid)"
    by metis
  have rec0: "reconciled acct0 txs aws"
    unfolding reconciled_def a0 res group_txs_append group_awards_append
    using bal0 pay0 len0 chg0
    by (simp add: group_txs_other [OF t'other] group_awards_other [OF w'other]
        group_txs_same [OF t0] group_awards_same [OF w0])
  have rec1: "reconciled a txs aws" if a: "a \<in> set accts'" for a
  proof -
    from a keys' have "(acc_student_id a, acc_term_id a) \<in> fst ` set rest"
      by (metis (mono_tags, lifting) image_eqI list.set_map)
    with fresh have ne: "(sid, tid) \<noteq> (acc_student_id a, acc_term_id a)" by metis
    from t0 ne have "\<forall>x \<in> set txs0. (tx_student_id x, tx_term_id x) \<noteq> (acc_student_id a, acc_term_id a)"
      by simp
    then have tx0: "group_txs (acc_student_id a) (acc_term_id a) ty txs0 = []" for ty
      by (rule group_txs_other)
    from w0 ne have "\<forall>x \<in> set aws0. (aw_student_id x, aw_term_id x) \<noteq> (acc_student_id a, acc_term_id a)"
      by simp
    then have aw0: "group_awards (acc_student_id a) (acc_term_id a) aws0 = []"
      by (rule group_awards_other)
    from rec' a have "reconciled a txs' aws'" by simp
    then show ?thesis
      unfolding reconciled_def res group_txs_append group_awards_append tx0 aw0 by simp
  qed
  have ids: "tx_transaction_id (txs ! k) = ''TX'' @ fmt_0d 9 (t + int k)" if k: "k < length txs" for k
  proof (cases "k < length txs0")
    case True
    with ids0 res(2) show ?thesis by (simp add: nth_append)
  next
    case False
    with k res(2) have "k - length txs0 < length txs'" by simp
    with ids' have "tx_transaction_id (txs' ! (k - length txs0))
        = ''TX'' @ fmt_0d 9 (t + int (length txs0) + int (k - length txs0))" by simp
    moreover from False have "t + int (length txs0) + int (k - length txs0) = t + int k" by simp
    ultimately show ?thesis using False res(2) by (simp add: nth_append)
  qed
  from keys tk wk rec0 rec1 ids res(1) show ?case by simp
qed

lemma distinct_filter_key:
  "distinct (map f xs) \<Longrightarrow> k \<in> f ` set xs \<Longrightarrow> \<exists>a. filter (\<lambda>x. f x = k) xs = [a] \<and> a \<in> set xs"
proof (induction xs)
  case Nil
  then show ?case by simp
next
  case (Cons x xs)
  show ?case
  proof (cases "f x = k")
    case True
    with Cons.prems(1) have "k \<notin> f ` set xs" by simp
    then have "\<forall>y \<in> set xs. \<not> f y = k" by blast
    then have "filter (\<lambda>x. f x = k) xs = []" by (rule filter_none)
    with True show ?thesis by simp
  next
    case False
    with Cons show ?thesis by auto
  qed
qed

lemma generate_financials_Inr:
  assumes "generate_financials students enrollments cbi g = Inr ((accts, txs, aws), g')"
  shows "distinct (map (\<lambda>a. (acc_student_id a, acc_term_id a)) accts) \<and>
    set (map (\<lambda>a. (acc_student_id a, acc_term_id a)) accts)
      = (\<lambda>e. (enr_student_id e, enr_term_id e)) ` set enrollments \<and>
    (\<forall>a \<in> set accts. reconciled a txs aws) \<and>
    (\<forall>k < length txs. tx_transaction_id (txs ! k) = ''TX'' @ fmt_0d 9 (1 + int k))"
proof -
  let ?key = "\<lambda>e. (enr_student_id e, enr_term_id e)"
  from assms obtain u g1 where
    fl: "financials_loop u (group_by ?key enrollments) 1 1 g1 = Inr ((accts, txs, aws), g')"
    unfolding generate_financials_def Let_def
    by (auto simp: gbind_Inr gthrow_Inr split: if_splits)
  have d: "distinct (map fst (group_by ?key enrollments))"
    by (rule group_by_distinct)
  from financials_loop_Inr [OF d fl] d group_by_keys [of ?key enrollments] show ?thesis
    by simp
qed

lemma group_account_reconciled:
  assumes run: "generate_financials students enrollments cbi g = Inr ((accts, txs, aws), g')"
    and e: "e \<in> set enrollments"
  shows "\<exists>a. group_accounts (enr_student_id e) (enr_term_id e) accts = [a] \<and>
    acc_student_id a = enr_student_id e \<and> acc_term_id a = enr_term_id e \<and> reconciled a txs aws"
proof -
  let ?f = "\<lambda>a. (acc_student_id a, acc_term_id a)"
  let ?k = "(enr_student_id e, enr_term_id e)"
  from generate_financials_Inr [OF run] have
    d: "distinct (map ?f accts)"
    and ks: "set (map ?f accts) = (\<lambda>e. (enr_student_id e, enr_term_id e)) ` set enrollments"
    and rec: "\<forall>a \<in> set accts. reconciled a txs aws"
    by simp_all
  from ks e have "?k \<in> ?f ` set accts" by auto
  from distinct_filter_key [OF d this] obtain a where
    a: "filter (\<lambda>x. ?f x = ?k) accts = [a]" "a \<in> set accts" by blast
  from a(1) have "a \<in> set (filter (\<lambda>x. ?f x = ?k) accts)" by simp
  then have "?f a = ?k" by simp
  with a rec show ?thesis by (simp add: group_accounts_def)
qed

lemma run_financials0:
  "map_sum id fst (generate_financials [student0] enrollments0 courses_by_id0 (draws0, 0))
     = Inr (accounts0, transactions0, aid_awards0)"
  by code_simp

text \<open>
  C3. For every \<open>(student_id, term_id)\<close> group of the enrollments, \<open>generate_financials\<close>
  emits one account row; its balance is \<open>round(total_charges - total_payments, 2)\<close>, and
  the amounts of the PAYMENT transactions of the pair plus the amount of its aid award (at
  most one; the empty sum 0 when none was generated) add up to \<open>total_payments\<close>.
\<close>

theorem account_reconciles_with_ledger:
  assumes "generate_financials students enrollments courses_by_id g
             = Inr ((student_accounts, transactions, aid_awards), g')"
    and "e \<in> set enrollments"
  shows "\<exists>a. group_accounts (enr_student_id e) (enr_term_id e) student_accounts = [a] \<and>
    acc_balance a = round_int (acc_total_charges a - acc_total_payments a) 2 \<and>
    sum_list (map tx_amount
       (group_txs (enr_student_id e) (enr_term_id e) ''PAYMENT'' transactions))
      + sum_list (map aw_amount (group_awards (enr_student_id e) (enr_term_id e) aid_awards))
      = acc_total_payments a \<and>
    length (group_awards (enr_student_id e) (enr_term_id e) aid_awards) \<le> 1"
proof -
  from group_account_reconciled [OF assms] obtain a where
    "group_accounts (enr_student_id e) (enr_term_id e) student_accounts = [a]"
    "acc_student_id a = enr_student_id e" "acc_term_id a = enr_term_id e"
    "reconciled a transactions aid_awards"
    by blast
  then show ?thesis unfolding reconciled_def by auto
qed

theorem account_reconciles_with_ledger_witness:
  "map_sum id fst (generate_financials [student0] enrollments0 courses_by_id0 (draws0, 0))
     = Inr (accounts0, transactions0, aid_awards0) \<and>
   completed0 2 \<in> set enrollments0 \<and>
   (\<exists>a. group_accounts (enr_student_id (completed0 2)) (enr_term_id (completed0 2)) accounts0 = [a] \<and>
    acc_balance a = round_int (acc_total_charges a - acc_total_payments a) 2 \<and>
    sum_list (map tx_amount
       (group_txs (enr_student_id (completed0 2)) (enr_term_id (completed0 2)) ''PAYMENT''
          transactions0))
      + sum_list (map aw_amount
          (group_awards (enr_student_id (completed0 2)) (enr_term_id (completed0 2)) aid_awards0))
      = acc_total_payments a \<and>
    length (group_awards (enr_student_id (completed0 2)) (enr_term_id (completed0 2)) aid_awards0) \<le> 1)"
proof -
  from map_sum_fst_Inr [OF run_financials0] obtain g' where
    r: "generate_financials [student0] enrollments0 courses_by_id0 (draws0, 0)
          = Inr ((accounts0, transactions0, aid_awards0), g')" ..
  have m: "completed0 2 \<in> set enrollments0" by (simp add: enrollments0_def)
  from account_reconciles_with_ledger [OF r m] run_financials0 m show ?thesis by blast
qed

text \<open>
  C4. For every \<open>(student_id, term_id)\<close> group of the enrollments there is exactly one
  transaction with \<open>trans_type\<close> CHARGE for the pair, and its amount is the
  \<open>total_charges\<close> of the account row of the pair.
\<close>

theorem one_charge_per_group:
  assumes "generate_financials students enrollments courses_by_id g
             = Inr ((student_accounts, transactions, aid_awards), g')"
    and "e \<in> set enrollments"
  shows "\<exists>a c. group_accounts (enr_student_id e) (enr_term_id e) student_accounts = [a] \<and>
    group_txs (enr_student_id e) (enr_term_id e) ''CHARGE'' transactions = [c] \<and>
    tx_amount c = acc_total_charges a"
proof -
  from group_account_reconciled [OF assms] obtain a where
    "group_accounts (enr_student_id e) (enr_term_id e) student_accounts = [a]"
    "acc_student_id a = enr_student_id e" "acc_term_id a = enr_term_id e"
    "reconciled a transactions aid_awards"
    by blast
  then show ?thesis unfolding reconciled_def by auto
qed

theorem one_charge_per_group_witness:
  "map_sum id fst (generate_financials [student0] enrollments0 courses_by_id0 (draws0, 0))
     = Inr (accounts0, transactions0, aid_awards0) \<and>
   completed0 2 \<in> set enrollments0 \<and>
   (\<exists>a c. group_accounts (enr_student_id (completed0 2)) (enr_term_id (completed0 2)) accounts0 = [a] \<and>
    group_txs (enr_student_id (completed0 2)) (enr_term_id (completed0 2)) ''CHARGE''
      transactions0 = [c] \<and>
    tx_amount c = acc_total_charges a)"
proof -
  from map_sum_fst_Inr [OF run_financials0] obtain g' where
    r: "generate_financials [student0] enrollments0 courses_by_id0 (draws0, 0)
          = Inr ((accounts0, transactions0, aid_awards0), g')" ..
  have m: "completed0 2 \<in> set enrollments0" by (simp add: enrollments0_def)
  from one_charge_per_group [OF r m] run_financials0 m show ?thesis by blast
qed

text \<open>
  C10. The \<open>transaction_id\<close> values of one run of \<open>generate_financials\<close> are pairwise
  different: the k-th transaction appended carries the counter value \<open>1 + k\<close>, zero-padded
  to nine digits, whatever its type.
\<close>

theorem transaction_ids_distinct:
  assumes "generate_financials students enrollments courses_by_id g
             = Inr ((student_accounts, transactions, aid_awards), g')"
  shows "distinct (map tx_transaction_id transactions)"
proof -
  from generate_financials_Inr [OF assms] have
    ids: "\<forall>k < length transactions.
            tx_transaction_id (transactions ! k) = ''TX'' @ fmt_0d 9 (1 + int k)"
    by simp
  have "i = j" if "i < length transactions" "j < length transactions"
    "tx_transaction_id (transactions ! i) = tx_transaction_id (transactions ! j)" for i j
  proof -
    from that ids have "fmt_0d 9 (1 + int i) = fmt_0d 9 (1 + int j)" by simp
    then have "1 + int i = 1 + int j" by (rule fmt_0d_inj [rotated 2]) simp_all
    then show ?thesis by simp
  qed
  then show ?thesis by (auto simp: distinct_conv_nth)
qed

theorem transaction_ids_distinct_witness:
  "map_sum id fst (generate_financials [student0] enrollments0 courses_by_id0 (draws0, 0))
     = Inr (accounts0, transactions0, aid_awards0) \<and>
   distinct (map tx_transaction_id transactions0)"
proof -
  from map_sum_fst_Inr [OF run_financials0] obtain g' where
    r: "generate_financials [student0] enrollments0 courses_by_id0 (draws0, 0)
          = Inr ((accounts0, transactions0, aid_awards0), g')" ..
  from transaction_ids_distinct [OF r] run_financials0 show ?thesis by blast
qed

subsection \<open>Postconditions of generators\<close>

lemma gpostD: "gpost m P \<Longrightarrow> m g = Inr (y, g') \<Longrightarrow> P y"
  unfolding gpost_def by blast

lemma gpost_yields: "gpost m P \<Longrightarrow> yields m y \<Longrightarrow> P y"
  unfolding gpost_def yields_def by blast

lemma gpost_gret: "P x \<Longrightarrow> gpost (gret x) P"
  unfolding gpost_def by (simp add: gret_Inr)

lemma gpost_gthrow: "gpost (gthrow e) P"
  unfolding gpost_def by (simp add: gthrow_Inr)

lemma gpost_gbind:
  assumes "gpost m Q" and "\<And>x. Q x \<Longrightarrow> gpost (f x) P"
  shows "gpost (gbind m f) P"
  unfolding gpost_def
proof (intro allI impI)
  fix g y g'
  assume "gbind m f g = Inr (y, g')"
  then obtain x g1 where m: "m g = Inr (x, g1)" and f: "f x g1 = Inr (y, g')"
    unfolding gbind_Inr by blast
  from gpostD [OF assms(1) m] have "Q x" .
  from gpostD [OF assms(2) [OF this] f] show "P y" .
qed

lemma gpost_weaken: "gpost m Q \<Longrightarrow> (\<And>x. Q x \<Longrightarrow> P x) \<Longrightarrow> gpost m P"
  unfolding gpost_def by blast

lemma gpost_if: "(c \<Longrightarrow> gpost a P) \<Longrightarrow> (\<not> c \<Longrightarrow> gpost b P) \<Longrightarrow> gpost (if c then a else b) P"
  by simp

lemma gpost_gmap:
  assumes "\<And>x. x \<in> set xs \<Longrightarrow> gpost (f x) (Q x)"
  shows "gpost (gmap f xs) (list_all2 Q xs)"
  unfolding gpost_def
proof (intro allI impI)
  fix g ys g'
  assume "gmap f xs g = Inr (ys, g')"
  then have "list_all2 (\<lambda>x y. yields (f x) y) xs ys" by (rule gmap_Inr)
  then have len: "length xs = length ys"
    and nth: "\<And>i. i < length xs \<Longrightarrow> yields (f (xs ! i)) (ys ! i)"
    by (simp_all add: list_all2_conv_all_nth)
  have "Q (xs ! i) (ys ! i)" if "i < length xs" for i
  proof -
    from that have "xs ! i \<in> set xs" by simp
    from gpost_yields [OF assms [OF this] nth [OF that]] show ?thesis .
  qed
  with len show "list_all2 Q xs ys"
    by (simp add: list_all2_conv_all_nth)
qed

lemma list_all2_member:
  assumes "list_all2 Q xs ys" and "y \<in> set ys"
  shows "\<exists>x \<in> set xs. Q x y"
proof -
  from assms(2) obtain i where i: "i < length ys" "ys ! i = y"
    by (auto simp: in_set_conv_nth)
  with assms(1) have "Q (xs ! i) y" "i < length xs"
    by (auto simp: list_all2_conv_all_nth)
  then show ?thesis using nth_mem by blast
qed

lemma gpost_true: "gpost m (\<lambda>_. True)"
  unfolding gpost_def by simp


lemma gpost_choice: "gpost (choice xs) (\<lambda>x. x \<in> set xs)"
  unfolding gpost_def by (blast dest: choice_Inr)

lemma gpost_randint: "gpost (randint a b) (\<lambda>x. a \<le> x \<and> x \<le> b)"
  unfolding gpost_def by (blast dest: randint_Inr)

lemma gpost_dict_get: "gpost (dict_get d k) (\<lambda>v. map_of d k = Some v)"
  unfolding gpost_def by (auto simp: dict_get_def gret_Inr gthrow_Inr split: option.splits)

lemma gpost_map_get: "gpost (map_get m k) (\<lambda>v. m k = Some v)"
  unfolding gpost_def by (auto simp: map_get_def gret_Inr gthrow_Inr split: option.splits)

lemma gpost_py_last: "gpost (py_last xs) (\<lambda>x. xs \<noteq> [] \<and> x = last xs)"
  unfolding gpost_def by (simp add: py_last_Inr)

lemma gpost_py_second_last:
  "gpost (py_second_last xs) (\<lambda>x. 2 \<le> length xs \<and> x = xs ! (length xs - 2))"
  unfolding gpost_def by (auto simp: py_second_last_def gret_Inr gthrow_Inr split: if_splits)

lemma sample_from_Inr:
  "k \<le> length pool \<Longrightarrow> sample_from pool k g = Inr (ys, g') \<Longrightarrow>
   length ys = k \<and> set ys \<subseteq> set pool"
proof (induction k arbitrary: pool g ys)
  case 0
  then show ?case by (simp add: gret_Inr)
next
  case (Suc k)
  let ?j = "nat (fst g (snd g) mod int (length pool))"
  let ?pool' = "take ?j pool @ drop (Suc ?j) pool"
  from Suc.prems(1) have ne: "pool \<noteq> []" by auto
  then have j: "?j < length pool" by (rule nat_mod_length)
  from Suc.prems(2) obtain rest g1 where
    rest: "sample_from ?pool' k g1 = Inr (rest, g')" and ys: "ys = pool ! ?j # rest"
    by (auto simp: gbind_Inr gret_Inr next_raw_Inr Let_def)
  from j Suc.prems(1) have len: "k \<le> length ?pool'" by simp
  have sub: "set ?pool' \<subseteq> set pool"
    using set_take_subset [of ?j pool] set_drop_subset [of "Suc ?j" pool] by auto
  from Suc.IH [OF len rest] sub j ys show ?case by auto
qed

lemma gpost_sample: "gpost (sample pool k) (\<lambda>ys. length ys = k \<and> set ys \<subseteq> set pool)"
  unfolding gpost_def
  by (auto simp: sample_def gthrow_Inr split: if_splits dest: sample_from_Inr [rotated])

text \<open>
  Every row of one student carries the student's id and names a section of the pool of
  its own term; at least four rows are in the current term.
\<close>

lemma student_enrollments_post:
  "gpost (student_enrollments sbt cur prior student)
     (\<lambda>rows.
        4 \<le> length (filter (\<lambda>r. enr_student_id r = st_student_id student \<and> enr_term_id r = cur) rows) \<and>
        (\<forall>r \<in> set rows. enr_student_id r = st_student_id student \<and>
           (\<exists>pool sec. map_of sbt (enr_term_id r) = Some pool \<and> sec \<in> set pool \<and>
              sec_course_section_id sec = enr_course_section_id r)))"
  unfolding student_enrollments_def Let_def
proof (rule gpost_gbind [OF gpost_dict_get], rule gpost_gbind [OF gpost_choice],
    rule gpost_gbind [OF gpost_sample], rule gpost_gbind [OF gpost_true], rule gpost_if)
  fix cur_pool :: "section_row list" and k :: nat and cs :: "section_row list" and r :: rat
  let ?cur_row = "\<lambda>sec. \<lparr>enr_student_id = st_student_id student,
      enr_course_section_id = sec_course_section_id sec, enr_term_id = cur,
      enr_enrollment_status = ''ENROLLED'', enr_grade_letter = [], enr_grade_points = None\<rparr>"
  let ?key = "\<lambda>r. enr_student_id r = st_student_id student \<and> enr_term_id r = cur"
  let ?P = "\<lambda>r. enr_student_id r = st_student_id student \<and>
       (\<exists>pool sec. map_of sbt (enr_term_id r) = Some pool \<and> sec \<in> set pool \<and>
          sec_course_section_id sec = enr_course_section_id r)"
  assume pool: "map_of sbt cur = Some cur_pool" and k: "k \<in> set [4, 4, 5]"
    and cs: "length cs = k \<and> set cs \<subseteq> set cur_pool"
  have row: "enr_student_id (?cur_row sec) = st_student_id student"
    "enr_term_id (?cur_row sec) = cur"
    "enr_course_section_id (?cur_row sec) = sec_course_section_id sec" for sec
    by simp_all
  have "\<forall>r \<in> set (map ?cur_row cs). ?key r"
    unfolding set_map using row(1,2) by blast
  then have "filter ?key (map ?cur_row cs) = map ?cur_row cs"
    by (rule filter_all)
  then have "length (filter ?key (map ?cur_row cs)) = length cs"
    by simp
  moreover from k cs have "4 \<le> length cs" by auto
  ultimately have c4: "4 \<le> length (filter ?key (map ?cur_row cs))" by simp
  have Pcur: "\<forall>r \<in> set (map ?cur_row cs). ?P r"
  proof
    fix r assume "r \<in> set (map ?cur_row cs)"
    then obtain sec where sec: "sec \<in> set cs" and r: "r = ?cur_row sec"
      unfolding set_map by blast
    from sec cs have "sec \<in> set cur_pool" by blast
    with pool show "?P r" unfolding r row by blast
  qed
  show "gpost (gret (map ?cur_row cs)) (\<lambda>rows. 4 \<le> length (filter ?key rows) \<and> (\<forall>r \<in> set rows. ?P r))"
    using c4 Pcur by (intro gpost_gret conjI)
  show "gpost
     (gbind (dict_get sbt prior) (\<lambda>prior_pool.
       gbind (choice [3, 4]) (\<lambda>k'.
       gbind (sample prior_pool k') (\<lambda>prior_sections.
       gbind (gmap (\<lambda>sec.
                gbind (choice grade_letters) (\<lambda>grade_letter.
                gbind (dict_get grade_points_table grade_letter) (\<lambda>grade_points.
                gret \<lparr>enr_student_id = st_student_id student,
                      enr_course_section_id = sec_course_section_id sec,
                      enr_term_id = prior,
                      enr_enrollment_status = ''COMPLETED'',
                      enr_grade_letter = grade_letter,
                      enr_grade_points = Some grade_points\<rparr>))) prior_sections) (\<lambda>prior_rows.
       gret (map ?cur_row cs @ prior_rows))))))
     (\<lambda>rows. 4 \<le> length (filter ?key rows) \<and> (\<forall>r \<in> set rows. ?P r))"
  proof (rule gpost_gbind [OF gpost_dict_get], rule gpost_gbind [OF gpost_choice],
      rule gpost_gbind [OF gpost_sample],
      rule gpost_gbind [OF gpost_gmap [where Q = "\<lambda>sec r. enr_student_id r = st_student_id student \<and>
          enr_term_id r = prior \<and> enr_course_section_id r = sec_course_section_id sec"]])
    fix prior_pool :: "section_row list" and k' :: nat and ps :: "section_row list"
      and prior_rows :: "enrollment_row list"
    assume pp: "map_of sbt prior = Some prior_pool"
      and ps: "length ps = k' \<and> set ps \<subseteq> set prior_pool"
      and rows: "list_all2 (\<lambda>sec r. enr_student_id r = st_student_id student \<and>
          enr_term_id r = prior \<and> enr_course_section_id r = sec_course_section_id sec) ps prior_rows"
    have "?P r" if "r \<in> set prior_rows" for r
    proof -
      from list_all2_member [OF rows that] obtain sec where "sec \<in> set ps"
        "enr_student_id r = st_student_id student"
        "enr_term_id r = prior" "enr_course_section_id r = sec_course_section_id sec"
        by blast
      with pp ps show ?thesis by (metis subsetD)
    qed
    then have "\<forall>r \<in> set prior_rows. ?P r" by blast
    with Pcur have all: "\<forall>r \<in> set (map ?cur_row cs @ prior_rows). ?P r"
      unfolding set_append by blast
    have "length (filter ?key (map ?cur_row cs)) \<le> length (filter ?key (map ?cur_row cs @ prior_rows))"
      by simp
    with c4 all have final: "4 \<le> length (filter ?key (map ?cur_row cs @ prior_rows)) \<and>
        (\<forall>r \<in> set (map ?cur_row cs @ prior_rows). ?P r)"
      by (intro conjI) (rule order_trans, assumption+)
    show "gpost (gret (map ?cur_row cs @ prior_rows))
        (\<lambda>rows. 4 \<le> length (filter ?key rows) \<and> (\<forall>r \<in> set rows. ?P r))"
      by (rule gpost_gret) (rule final)
  next
    fix sec :: section_row
    show "gpost (gbind (choice grade_letters) (\<lambda>grade_letter.
                gbind (dict_get grade_points_table grade_letter) (\<lambda>grade_points.
                gret \<lparr>enr_student_id = st_student_id student,
                      enr_course_section_id = sec_course_section_id sec,
                      enr_term_id = prior,
                      enr_enrollment_status = ''COMPLETED'',
                      enr_grade_letter = grade_letter,
                      enr_grade_points = Some grade_points\<rparr>)))
        (\<lambda>r. enr_student_id r = st_student_id student \<and>
          enr_term_id r = prior \<and> enr_course_section_id r = sec_course_section_id sec)"
      by (intro gpost_gbind [OF gpost_true] gpost_gret) simp
  qed
qed

subsection \<open>Enrollments\<close>

lemma list_all2_member_left:
  assumes "list_all2 Q xs ys" and "x \<in> set xs"
  shows "\<exists>y \<in> set ys. Q x y"
proof -
  from assms(2) obtain i where i: "i < length xs" "xs ! i = x"
    by (auto simp: in_set_conv_nth)
  with assms(1) have "Q x (ys ! i)" "i < length ys"
    by (auto simp: list_all2_conv_all_nth)
  then show ?thesis using nth_mem by blast
qed

lemma length_filter_concat_ge:
  "xs \<in> set xss \<Longrightarrow> length (filter P xs) \<le> length (filter P (concat xss))"
  by (induction xss) auto

lemma group_by_pool:
  assumes "map_of (group_by key xs) k = Some pool" and "x \<in> set pool"
  shows "x \<in> set xs \<and> key x = k"
  using assms by (auto simp: group_by_map_of split: if_splits)

lemma generate_enrollments_post:
  "gpost (generate_enrollments students sections terms)
     (\<lambda>enrs.
        (\<forall>s \<in> set students.
           4 \<le> length (filter (\<lambda>r. enr_student_id r = st_student_id s \<and>
                                 enr_term_id r = tm_term_id (last terms)) enrs)) \<and>
        (\<forall>r \<in> set enrs. \<exists>sec \<in> set sections.
           sec_course_section_id sec = enr_course_section_id r \<and>
           sec_term_id sec = enr_term_id r))"
  unfolding generate_enrollments_def Let_def
proof (rule gpost_gbind [OF gpost_py_last], rule gpost_gbind [OF gpost_py_second_last],
    rule gpost_gbind [OF gpost_gmap [OF student_enrollments_post]])
  fix current_term prior_term :: term_row and per_student :: "enrollment_row list list"
  let ?sbt = "group_by sec_term_id sections"
  let ?Q = "\<lambda>student rows.
        4 \<le> length (filter (\<lambda>r. enr_student_id r = st_student_id student \<and>
                               enr_term_id r = tm_term_id current_term) rows) \<and>
        (\<forall>r \<in> set rows. enr_student_id r = st_student_id student \<and>
           (\<exists>pool sec. map_of ?sbt (enr_term_id r) = Some pool \<and> sec \<in> set pool \<and>
              sec_course_section_id sec = enr_course_section_id r))"
  assume cur: "terms \<noteq> [] \<and> current_term = last terms"
    and all2: "list_all2 ?Q students per_student"
  have a: "4 \<le> length (filter (\<lambda>r. enr_student_id r = st_student_id s \<and>
               enr_term_id r = tm_term_id (last terms)) (concat per_student))"
    if "s \<in> set students" for s
  proof -
    from list_all2_member_left [OF all2 that] obtain rows where
      rows: "rows \<in> set per_student" and q: "?Q s rows" by blast
    from q cur have "4 \<le> length (filter (\<lambda>r. enr_student_id r = st_student_id s \<and>
               enr_term_id r = tm_term_id (last terms)) rows)" by simp
    with length_filter_concat_ge [OF rows] show ?thesis
      by (rule order_trans [rotated])
  qed
  have b: "\<exists>sec \<in> set sections. sec_course_section_id sec = enr_course_section_id r \<and>
           sec_term_id sec = enr_term_id r" if "r \<in> set (concat per_student)" for r
  proof -
    from that obtain rows where rows: "rows \<in> set per_student" and r: "r \<in> set rows"
      by auto
    from list_all2_member [OF all2 rows] r obtain pool sec where
      "map_of ?sbt (enr_term_id r) = Some pool" "sec \<in> set pool"
      "sec_course_section_id sec = enr_course_section_id r"
      by blast
    with group_by_pool [of sec_term_id sections "enr_term_id r" pool sec] show ?thesis
      by blast
  qed
  from a b have final: "(\<forall>s \<in> set students.
           4 \<le> length (filter (\<lambda>r. enr_student_id r = st_student_id s \<and>
                                 enr_term_id r = tm_term_id (last terms)) (concat per_student))) \<and>
        (\<forall>r \<in> set (concat per_student). \<exists>sec \<in> set sections.
           sec_course_section_id sec = enr_course_section_id r \<and>
           sec_term_id sec = enr_term_id r)"
    by blast
  show "gpost (gret (concat per_student)) (\<lambda>enrs.
        (\<forall>s \<in> set students.
           4 \<le> length (filter (\<lambda>r. enr_student_id r = st_student_id s \<and>
                                 enr_term_id r = tm_term_id (last terms)) enrs)) \<and>
        (\<forall>r \<in> set enrs. \<exists>sec \<in> set sections.
           sec_course_section_id sec = enr_course_section_id r \<and>
           sec_term_id sec = enr_term_id r))"
    by (rule gpost_gret) (rule final)
qed

lemma distinct_filter_le1:
  "distinct (map f xs) \<Longrightarrow> length (filter (\<lambda>x. f x = k) xs) \<le> 1"
proof (induction xs)
  case Nil
  then show ?case by simp
next
  case (Cons x xs)
  show ?case
  proof (cases "f x = k")
    case True
    with Cons.prems have "k \<notin> f ` set xs" by simp
    then have "\<forall>y \<in> set xs. \<not> f y = k" by blast
    then have "filter (\<lambda>x. f x = k) xs = []" by (rule filter_none)
    with True show ?thesis by simp
  next
    case False
    with Cons show ?thesis by simp
  qed
qed

lemma run_enrollments0:
  "map_sum id fst (generate_enrollments [student0] sections0 generate_terms (draws0, 0))
     = Inr enrollments0"
  by code_simp

text \<open>
  C9. Every student of the list given to \<open>generate_enrollments\<close> has at least four
  enrollments in the last term, so the pair (student, last term) is a grouping key of
  \<open>generate_financials\<close>, which emits exactly one account row for it; and no
  \<open>(student_id, term_id)\<close> pair has more than one account row.
\<close>

theorem one_account_per_student_term:
  assumes enr: "generate_enrollments students sections terms g0 = Inr (enrollments, g1)"
    and fin: "generate_financials students enrollments courses_by_id g2
                = Inr ((student_accounts, transactions, aid_awards), g3)"
    and s: "s \<in> set students"
  shows "4 \<le> length (filter (\<lambda>e. enr_student_id e = st_student_id s \<and>
                                 enr_term_id e = tm_term_id (last terms)) enrollments) \<and>
    length (group_accounts (st_student_id s) (tm_term_id (last terms)) student_accounts) = 1 \<and>
    (\<forall>sid tid. length (group_accounts sid tid student_accounts) \<le> 1)"
proof -
  let ?cur = "tm_term_id (last terms)"
  let ?key = "\<lambda>e. enr_student_id e = st_student_id s \<and> enr_term_id e = ?cur"
  from gpostD [OF generate_enrollments_post enr] s have
    four: "4 \<le> length (filter ?key enrollments)" by blast
  then have "filter ?key enrollments \<noteq> []" by auto
  then obtain e where e: "e \<in> set enrollments" "?key e"
    by (metis (mono_tags, lifting) filter_False)
  from group_account_reconciled [OF fin e(1)] e(2) have
    one: "length (group_accounts (st_student_id s) ?cur student_accounts) = 1"
    by auto
  from generate_financials_Inr [OF fin] have
    d: "distinct (map (\<lambda>a. (acc_student_id a, acc_term_id a)) student_accounts)" by simp
  have "length (group_accounts sid tid student_accounts) \<le> 1" for sid tid
    using distinct_filter_le1 [OF d, of "(sid, tid)"] by (simp add: group_accounts_def)
  with four one show ?thesis by blast
qed

theorem one_account_per_student_term_witness:
  "map_sum id fst (generate_enrollments [student0] sections0 generate_terms (draws0, 0))
     = Inr enrollments0 \<and>
   map_sum id fst (generate_financials [student0] enrollments0 courses_by_id0 (draws0, 0))
     = Inr (accounts0, transactions0, aid_awards0) \<and>
   student0 \<in> set [student0] \<and>
   4 \<le> length (filter (\<lambda>e. enr_student_id e = st_student_id student0 \<and>
                             enr_term_id e = tm_term_id (last generate_terms)) enrollments0) \<and>
   length (group_accounts (st_student_id student0) (tm_term_id (last generate_terms)) accounts0) = 1 \<and>
   (\<forall>sid tid. length (group_accounts sid tid accounts0) \<le> 1)"
proof -
  from map_sum_fst_Inr [OF run_enrollments0] obtain g1 where
    e: "generate_enrollments [student0] sections0 generate_terms (draws0, 0)
          = Inr (enrollments0, g1)" ..
  from map_sum_fst_Inr [OF run_financials0] obtain g3 where
    f: "generate_financials [student0] enrollments0 courses_by_id0 (draws0, 0)
          = Inr ((accounts0, transactions0, aid_awards0), g3)" ..
  have m: "student0 \<in> set [student0]" by simp
  from one_account_per_student_term [OF e f m] run_enrollments0 run_financials0 m
  show ?thesis by blast
qed


subsection \<open>Section ids determine the term\<close>

lemma split_at_first:
  "c \<notin> set a \<Longrightarrow> c \<notin> set a' \<Longrightarrow> a @ c # r = a' @ c # r' \<Longrightarrow> a = a' \<and> r = r'"
proof (induction a arbitrary: a')
  case Nil
  then show ?case by (cases a') auto
next
  case (Cons x xs)
  then show ?case by (cases a') auto
qed

lemma digit_char_not_dash: "d < 10 \<Longrightarrow> digit_char d \<noteq> CHR ''-''"
proof -
  assume "d < 10"
  then have "d \<in> {0, 1, 2, 3, 4, 5, 6, 7, 8, 9}" by auto
  then show ?thesis by (auto simp: digit_char_def)
qed

lemma str_nat_no_dash: "CHR ''-'' \<notin> set (str_nat n)"
proof (induction n rule: str_nat.induct)
  case (1 n)
  show ?case
  proof (cases "n < 10")
    case True
    then show ?thesis
      by (subst str_nat.simps) (simp add: digit_char_not_dash [symmetric])
  next
    case False
    with 1 have "CHR ''-'' \<notin> set (str_nat (n div 10))" by simp
    moreover have "digit_char (n mod 10) \<noteq> CHR ''-''"
      by (rule digit_char_not_dash) simp
    ultimately show ?thesis using False
      by (subst str_nat.simps) auto
  qed
qed

lemma generate_course_post:
  "gpost generate_course (\<lambda>c. CHR ''-'' \<notin> set (crs_course_id c))"
  unfolding generate_course_def Let_def
proof (rule gpost_gbind [OF gpost_choice], rule gpost_gbind [OF gpost_randint],
    rule gpost_gbind [OF gpost_true], rule gpost_gbind [OF gpost_true], rule gpost_gret)
  fix subj :: string and nbr :: int
  assume subj: "subj \<in> set subjects" and nbr: "100 \<le> nbr \<and> nbr \<le> 499"
  from subj have "CHR ''-'' \<notin> set subj"
    by (auto simp: subjects_def)
  moreover from nbr have "CHR ''-'' \<notin> set (str_int nbr)"
    by (simp add: str_int_def str_nat_no_dash)
  ultimately show "CHR ''-'' \<notin> set (crs_course_id
      \<lparr>crs_course_id = subj @ str_int nbr, crs_subject = subj, crs_catalog_nbr = str_int nbr,
       crs_title = subj @ '' '' @ t, crs_units = u\<rparr>)" for t u
    by simp
qed

lemma list_all2_all_right:
  "list_all2 (\<lambda>x y. P y) xs ys \<Longrightarrow> \<forall>y \<in> set ys. P y"
  by (auto simp: list_all2_conv_all_nth in_set_conv_nth)

lemma generate_catalog_post:
  "gpost (generate_catalog n) (\<lambda>courses. \<forall>c \<in> set courses. CHR ''-'' \<notin> set (crs_course_id c))"
  unfolding generate_catalog_def
  by (rule gpost_weaken [OF gpost_gmap [OF generate_course_post]]) (rule list_all2_all_right)

lemma generate_section_post:
  "c \<in> set courses \<Longrightarrow> t \<in> set terms \<Longrightarrow>
   gpost (generate_section t c n) (section_of_course_term courses terms)"
  unfolding generate_section_def Let_def
  by (rule gpost_gbind [OF gpost_true], rule gpost_gret)
     (auto simp: section_of_course_term_def)

lemma generate_course_sections_post:
  assumes "c \<in> set courses" "t \<in> set terms"
  shows "gpost (generate_course_sections t c) (\<lambda>secs. \<forall>s \<in> set secs. section_of_course_term courses terms s)"
  unfolding generate_course_sections_def
  by (rule gpost_gbind [OF gpost_true],
      rule gpost_weaken [OF gpost_gmap [OF generate_section_post [OF assms]]])
     (rule list_all2_all_right)

lemma gpost_gmap_all:
  assumes "\<And>x. x \<in> set xs \<Longrightarrow> gpost (f x) P"
  shows "gpost (gmap f xs) (\<lambda>ys. \<forall>y \<in> set ys. P y)"
  by (rule gpost_weaken [OF gpost_gmap [where Q = "\<lambda>x y. P y"]])
     (rule assms, assumption, rule list_all2_all_right)

lemma generate_sections_post:
  "gpost (generate_sections courses terms)
     (\<lambda>secs. \<forall>s \<in> set secs. section_of_course_term courses terms s)"
  unfolding generate_sections_def
proof (rule gpost_gbind [where Q = "\<lambda>per_term. \<forall>secs \<in> set per_term. \<forall>s \<in> set secs. section_of_course_term courses terms s"])
  show "gpost (gmap (\<lambda>term. gbind (gmap (generate_course_sections term) courses)
          (\<lambda>per_course. gret (concat per_course))) terms)
      (\<lambda>per_term. \<forall>secs \<in> set per_term. \<forall>s \<in> set secs. section_of_course_term courses terms s)"
  proof (rule gpost_gmap_all)
    fix t assume t: "t \<in> set terms"
    show "gpost (gbind (gmap (generate_course_sections t) courses)
          (\<lambda>per_course. gret (concat per_course)))
        (\<lambda>secs. \<forall>s \<in> set secs. section_of_course_term courses terms s)"
    proof (rule gpost_gbind [where Q = "\<lambda>per_course. \<forall>secs \<in> set per_course. \<forall>s \<in> set secs. section_of_course_term courses terms s"])
      show "gpost (gmap (generate_course_sections t) courses)
          (\<lambda>per_course. \<forall>secs \<in> set per_course. \<forall>s \<in> set secs. section_of_course_term courses terms s)"
        by (rule gpost_gmap_all) (rule generate_course_sections_post [OF _ t])
    next
      fix per_course :: "section_row list list"
      assume "\<forall>secs \<in> set per_course. \<forall>s \<in> set secs. section_of_course_term courses terms s"
      then have "\<forall>s \<in> set (concat per_course). section_of_course_term courses terms s" by auto
      then show "gpost (gret (concat per_course))
          (\<lambda>secs. \<forall>s \<in> set secs. section_of_course_term courses terms s)"
        by (intro gpost_gret)
    qed
  qed
next
  fix per_term :: "section_row list list"
  assume "\<forall>secs \<in> set per_term. \<forall>s \<in> set secs. section_of_course_term courses terms s"
  then have "\<forall>s \<in> set (concat per_term). section_of_course_term courses terms s" by auto
  then show "gpost (gret (concat per_term))
      (\<lambda>secs. \<forall>s \<in> set secs. section_of_course_term courses terms s)"
    by (intro gpost_gret)
qed


lemma section_id_determines_term:
  assumes c: "\<forall>c \<in> set courses. CHR ''-'' \<notin> set (crs_course_id c)"
    and t: "\<forall>t \<in> set terms. CHR ''-'' \<notin> set (tm_term_id t)"
    and s1: "section_of_course_term courses terms s1"
    and s2: "section_of_course_term courses terms s2"
    and eq: "sec_course_section_id s1 = sec_course_section_id s2"
  shows "sec_term_id s1 = sec_term_id s2"
proof -
  from s1 obtain c1 t1 n1 where 1: "c1 \<in> set courses" "t1 \<in> set terms"
    "sec_course_section_id s1 = crs_course_id c1 @ CHR ''-'' # tm_term_id t1 @ CHR ''-'' # CHR ''S'' # fmt_0d 2 n1"
    "sec_term_id s1 = tm_term_id t1"
    unfolding section_of_course_term_def by blast
  from s2 obtain c2 t2 n2 where 2: "c2 \<in> set courses" "t2 \<in> set terms"
    "sec_course_section_id s2 = crs_course_id c2 @ CHR ''-'' # tm_term_id t2 @ CHR ''-'' # CHR ''S'' # fmt_0d 2 n2"
    "sec_term_id s2 = tm_term_id t2"
    unfolding section_of_course_term_def by blast
  from c 1(1) 2(1) have nc: "CHR ''-'' \<notin> set (crs_course_id c1)" "CHR ''-'' \<notin> set (crs_course_id c2)"
    by simp_all
  from t 1(2) 2(2) have nt: "CHR ''-'' \<notin> set (tm_term_id t1)" "CHR ''-'' \<notin> set (tm_term_id t2)"
    by simp_all
  from eq 1(3) 2(3) have
    "crs_course_id c1 @ CHR ''-'' # (tm_term_id t1 @ CHR ''-'' # CHR ''S'' # fmt_0d 2 n1)
      = crs_course_id c2 @ CHR ''-'' # (tm_term_id t2 @ CHR ''-'' # CHR ''S'' # fmt_0d 2 n2)"
    by simp
  from split_at_first [OF nc this] have
    "tm_term_id t1 @ CHR ''-'' # (CHR ''S'' # fmt_0d 2 n1)
      = tm_term_id t2 @ CHR ''-'' # (CHR ''S'' # fmt_0d 2 n2)"
    by simp
  from split_at_first [OF nt this] have "tm_term_id t1 = tm_term_id t2" by simp
  with 1(4) 2(4) show ?thesis by simp
qed

lemma generate_terms_no_dash: "\<forall>t \<in> set generate_terms. CHR ''-'' \<notin> set (tm_term_id t)"
  by (simp add: generate_terms_def)

lemma run_catalog1: "map_sum id fst (generate_catalog 4 (draws0, 0)) = Inr courses1"
  by code_simp

lemma run_sections1:
  "map_sum id fst (generate_sections courses1 generate_terms (draws0, 0)) = Inr sections1"
  by code_simp

lemma run_enrollments1:
  "map_sum id fst (generate_enrollments [student0] sections1 generate_terms (draws0, 0))
     = Inr enrollments1"
  by code_simp

text \<open>
  C7. With the catalog of \<open>generate_catalog\<close>, the sections of \<open>generate_sections\<close>
  over it and the fixed terms, every enrollment of \<open>generate_enrollments\<close> names a
  section of the list, and every section of the list that carries the enrollment's
  \<open>course_section_id\<close> has the enrollment's \<open>term_id\<close> (also where courses of the
  catalog share a \<open>course_id\<close> and their sections share ids).
\<close>

theorem enrollment_term_matches_section:
  assumes cat: "generate_catalog num_courses g0 = Inr (courses, g1)"
    and secs: "generate_sections courses generate_terms g1' = Inr (sections, g2)"
    and enrs: "generate_enrollments students sections generate_terms g2' = Inr (enrollments, g3)"
    and e: "e \<in> set enrollments"
  shows "(\<exists>sec \<in> set sections. sec_course_section_id sec = enr_course_section_id e) \<and>
    (\<forall>sec \<in> set sections.
       sec_course_section_id sec = enr_course_section_id e \<longrightarrow> sec_term_id sec = enr_term_id e)"
proof -
  from gpostD [OF generate_catalog_post cat] have
    c: "\<forall>c \<in> set courses. CHR ''-'' \<notin> set (crs_course_id c)" .
  from gpostD [OF generate_sections_post secs] have
    s: "\<forall>s \<in> set sections. section_of_course_term courses generate_terms s" .
  from gpostD [OF generate_enrollments_post enrs] e obtain sec0 where
    sec0: "sec0 \<in> set sections" "sec_course_section_id sec0 = enr_course_section_id e"
      "sec_term_id sec0 = enr_term_id e"
    by blast
  have "sec_term_id sec = enr_term_id e"
    if "sec \<in> set sections" "sec_course_section_id sec = enr_course_section_id e" for sec
  proof -
    from s that(1) sec0(1) have "section_of_course_term courses generate_terms sec"
      "section_of_course_term courses generate_terms sec0" by simp_all
    from section_id_determines_term [OF c generate_terms_no_dash this] that(2) sec0(2,3)
    show ?thesis by simp
  qed
  with sec0 show ?thesis by blast
qed

theorem enrollment_term_matches_section_witness:
  "map_sum id fst (generate_catalog 4 (draws0, 0)) = Inr courses1 \<and>
   map_sum id fst (generate_sections courses1 generate_terms (draws0, 0)) = Inr sections1 \<and>
   map_sum id fst (generate_enrollments [student0] sections1 generate_terms (draws0, 0))
     = Inr enrollments1 \<and>
   math_completed \<in> set enrollments1 \<and>
   math_section ''2025SP'' \<in> set sections1 \<and>
   sec_course_section_id (math_section ''2025SP'') = enr_course_section_id math_completed \<and>
   sec_term_id (math_section ''2025SP'') = enr_term_id math_completed"
proof -
  from map_sum_fst_Inr [OF run_catalog1] obtain g1 where
    c: "generate_catalog 4 (draws0, 0) = Inr (courses1, g1)" ..
  from map_sum_fst_Inr [OF run_sections1] obtain g2 where
    s: "generate_sections courses1 generate_terms (draws0, 0) = Inr (sections1, g2)" ..
  from map_sum_fst_Inr [OF run_enrollments1] obtain g4 where
    e: "generate_enrollments [student0] sections1 generate_terms (draws0, 0)
          = Inr (enrollments1, g4)" ..
  have m: "math_completed \<in> set enrollments1"
    by (simp add: enrollments1_def)
  have ms: "math_section ''2025SP'' \<in> set sections1"
    by (simp add: sections1_def)
  have id: "sec_course_section_id (math_section ''2025SP'') = enr_course_section_id math_completed"
    by (simp add: math_section_def math_completed_def)
  from enrollment_term_matches_section [OF c s e m] ms id
  have "sec_term_id (math_section ''2025SP'') = enr_term_id math_completed"
    by blast
  with run_catalog1 run_sections1 run_enrollments1 m ms id show ?thesis by blast
qed

subsection \<open>LMS rows\<close>

lemma concat_chunks:
  "\<forall>xs \<in> set xss. length xs = n \<Longrightarrow>
   length (concat xss) = n * length xss \<and>
   (\<forall>i j. i < length xss \<longrightarrow> j < n \<longrightarrow> concat xss ! (n * i + j) = xss ! i ! j)"
proof (induction xss)
  case Nil
  then show ?case by simp
next
  case (Cons xs xss)
  then have len: "length xs = n" and ih: "length (concat xss) = n * length xss"
    "\<And>i j. i < length xss \<Longrightarrow> j < n \<Longrightarrow> concat xss ! (n * i + j) = xss ! i ! j"
    by simp_all
  have "concat (xs # xss) ! (n * i + j) = (xs # xss) ! i ! j"
    if "i < length (xs # xss)" "j < n" for i j
  proof (cases i)
    case 0
    with that len show ?thesis by (simp add: nth_append)
  next
    case (Suc i')
    with that have "i' < length xss" by simp
    from ih(2) [OF this that(2)] have "concat xss ! (n * i' + j) = xss ! i' ! j" .
    moreover have "n * i + j - n = n * i' + j" "\<not> n * i + j < n"
      using Suc by simp_all
    ultimately show ?thesis using Suc len by (simp add: nth_append)
  qed
  with len ih(1) show ?case by simp
qed

lemma term_dates_terms:
  "map_of term_dates tid = Some (s, e) \<Longrightarrow>
   \<exists>t \<in> set generate_terms. tm_term_id t = tid \<and> tm_start_date t = s \<and> tm_end_date t = e"
  by (auto simp: term_dates_def generate_terms_def split: if_splits)

lemma term_dates_midnight:
  "map_of term_dates tid = Some (s, e) \<Longrightarrow> s mod 86400 = 0 \<and> e mod 86400 = 0 \<and> s \<le> e"
  by (auto simp: term_dates_def mk_datetime_def ymd2ord_def days_before_year_def
      days_before_month_def days_before_month_tab_def is_leap_def split: if_splits)

lemma login_event_ts_post:
  "gpost (login_event_ts start_dt end_dt)
     (\<lambda>ts. \<exists>days tod. ts = start_dt + days * 86400 + tod \<and> 0 \<le> days \<and>
        days * 86400 \<le> end_dt - start_dt \<and> 28800 \<le> tod \<and> tod \<le> 75540)"
  unfolding login_event_ts_def
proof (rule gpost_gbind [OF gpost_randint], rule gpost_gbind [OF gpost_randint],
    rule gpost_gbind [OF gpost_randint], rule gpost_gret)
  fix days hours minutes :: int
  assume d: "0 \<le> days \<and> days \<le> delta_days (end_dt - start_dt)"
    and h: "8 \<le> hours \<and> hours \<le> 20" and m: "0 \<le> minutes \<and> minutes \<le> 59"
  have "delta_days (end_dt - start_dt) * 86400 \<le> end_dt - start_dt"
    unfolding delta_days_def
    using pos_mod_sign [of 86400 "end_dt - start_dt"]
      div_mult_mod_eq [of "end_dt - start_dt" 86400] by linarith
  moreover from d have "days * 86400 \<le> delta_days (end_dt - start_dt) * 86400" by simp
  ultimately have le: "days * 86400 \<le> end_dt - start_dt" by linarith
  have ts: "start_dt + timedelta days hours minutes
      = start_dt + days * 86400 + (hours * 3600 + minutes * 60)"
    unfolding timedelta_def by simp
  from h m have tod: "28800 \<le> hours * 3600 + minutes * 60" "hours * 3600 + minutes * 60 \<le> 75540"
    by simp_all
  from ts d le tod show "\<exists>days' tod. start_dt + timedelta days hours minutes
      = start_dt + days' * 86400 + tod \<and> 0 \<le> days' \<and>
      days' * 86400 \<le> end_dt - start_dt \<and> 28800 \<le> tod \<and> tod \<le> 75540"
    by blast
qed

lemma login_event_post:
  "gpost (login_event start_dt end_dt sid lid)
     (\<lambda>row. log_student_id row = sid \<and>
        (\<exists>ts days tod. log_event_ts row = strftime_ts ts \<and>
           ts = start_dt + days * 86400 + tod \<and> 0 \<le> days \<and>
           days * 86400 \<le> end_dt - start_dt \<and> 28800 \<le> tod \<and> tod \<le> 75540))"
  unfolding login_event_def
  by (rule gpost_gbind [OF login_event_ts_post], rule gpost_gbind [OF gpost_true],
      rule gpost_gret) auto

lemma gpost_gmap_len:
  assumes "\<And>x. x \<in> set xs \<Longrightarrow> gpost (f x) P"
  shows "gpost (gmap f xs) (\<lambda>ys. length ys = length xs \<and> (\<forall>y \<in> set ys. P y))"
proof (rule gpost_weaken [OF gpost_gmap [where Q = "\<lambda>x y. P y"]])
  show "gpost (f x) P" if "x \<in> set xs" for x using that by (rule assms)
  show "length ys = length xs \<and> (\<forall>y \<in> set ys. P y)" if "list_all2 (\<lambda>x. P) xs ys" for ys
    using that list_all2_all_right [of P xs ys] by (simp add: list_all2_lengthD)
qed

lemma enrollment_lms_post:
  "gpost (enrollment_lms d enr)
     (\<lambda>r. length (fst r) = 6 \<and>
        (\<forall>row \<in> set (fst r). log_student_id row = enr_student_id enr \<and>
           (\<exists>s e ts days tod. map_of term_dates (enr_term_id enr) = Some (s, e) \<and>
              log_event_ts row = strftime_ts ts \<and>
              ts = s + days * 86400 + tod \<and> 0 \<le> days \<and>
              days * 86400 \<le> e - s \<and> 28800 \<le> tod \<and> tod \<le> 75540)))"
  unfolding enrollment_lms_def Let_def
  apply (rule gpost_gbind [OF gpost_dict_get])
  apply (clarsimp simp del: upt_Suc)
  apply (rule gpost_gbind [OF gpost_map_get])
  apply (rule gpost_gbind [OF gpost_gmap_len [OF login_event_post]])
  apply (rule gpost_gbind [OF gpost_true])
  apply (rule gpost_gret)
  apply simp
  done

lemma xwalk_loop_rows:
  "snd (xwalk_loop h sections m) =
     map (\<lambda>sec. \<lparr>xw_course_section_id = sec_course_section_id sec,
                    xw_lms_course_id = lms_course_id_of h (sec_course_section_id sec)\<rparr>) sections"
  by (induction sections arbitrary: m) (simp_all add: Let_def split_beta)

lemma generate_lms_post:
  assumes each: "\<And>d enr. gpost (enrollment_lms d enr)
      (\<lambda>r. length (fst r) = 6 \<and> (\<forall>row \<in> set (fst r). P enr row))"
  shows "gpost (generate_lms h enrollments sections)
     (\<lambda>r. fst r = snd (xwalk_loop h sections Map.empty) \<and>
        length (fst (snd r)) = 6 * length enrollments \<and>
        (\<forall>i j. i < length enrollments \<longrightarrow> j < 6 \<longrightarrow>
           P (enrollments ! i) (fst (snd r) ! (6 * i + j))))"
  unfolding generate_lms_def Let_def
proof (simp only: split_beta, rule gpost_gbind [OF gpost_gmap [OF each]], rule gpost_gret)
  fix per :: "(login_row list \<times> submission_row list) list"
  let ?d = "fst (xwalk_loop h sections Map.empty)"
  assume all2: "list_all2 (\<lambda>enr r. length (fst r) = 6 \<and>
      (\<forall>row \<in> set (fst r). P enr row)) enrollments per"
  then have len: "length per = length enrollments"
    by (simp add: list_all2_lengthD)
  have "length (fst r) = 6" if "r \<in> set per" for r
    using list_all2_member [OF all2 that] by blast
  then have six: "\<forall>xs \<in> set (map fst per). length xs = 6"
    by auto
  from concat_chunks [OF six] len have
    clen: "length (concat (map fst per)) = 6 * length enrollments"
    and cnth: "\<And>i j. i < length enrollments \<Longrightarrow> j < 6 \<Longrightarrow>
      concat (map fst per) ! (6 * i + j) = fst (per ! i) ! j"
    by simp_all
  have "P (enrollments ! i) (concat (map fst per) ! (6 * i + j))"
    if "i < length enrollments" "j < 6" for i j
  proof -
    from all2 that(1) have "length (fst (per ! i)) = 6"
      "\<forall>row \<in> set (fst (per ! i)). P (enrollments ! i) row"
      by (simp_all add: list_all2_conv_all_nth)
    with that(2) have "P (enrollments ! i) (fst (per ! i) ! j)" by simp
    with cnth [OF that] show ?thesis by simp
  qed
  with clen show "fst (snd (xwalk_loop h sections Map.empty), concat (map fst per), concat (map snd per))
      = snd (xwalk_loop h sections Map.empty) \<and>
    length (fst (snd (snd (xwalk_loop h sections Map.empty), concat (map fst per), concat (map snd per))))
      = 6 * length enrollments \<and>
    (\<forall>i j. i < length enrollments \<longrightarrow> j < 6 \<longrightarrow>
       P (enrollments ! i)
         (fst (snd (snd (xwalk_loop h sections Map.empty), concat (map fst per), concat (map snd per)))
            ! (6 * i + j)))"
    by simp
qed

lemma generate_lms_xwalk:
  assumes "generate_lms h enrollments sections g = Inr ((xwalk, lms_logins, submissions), g')"
  shows "xwalk = snd (xwalk_loop h sections Map.empty)"
  using assms unfolding generate_lms_def Let_def split_beta
  by (auto simp: gbind_Inr gret_Inr)

lemma run_lms_a:
  "map_sum id fst (generate_lms hash_a [math_enrolled] [math_section ''2025FA''] (draws_last, 0))
     = Inr (xwalk_a, replicate 6 (login_last ''LMS-0000018''),
            map (submission_last ''LMS-0000018'') [1, 2, 3, 4])"
  by code_simp

lemma run_lms_b:
  "map_sum id fst (generate_lms hash_b [math_enrolled] [math_section ''2025FA''] (draws_last, 0))
     = Inr (xwalk_b, replicate 6 (login_last ''LMS-0000019''),
            map (submission_last ''LMS-0000019'') [1, 2, 3, 4])"
  by code_simp

lemma run_login_event_ts_last:
  "map_sum id fst (login_event_ts (mk_datetime 2025 8 25) (mk_datetime 2025 12 12) (draws_last, 0))
     = Inr (mk_datetime 2025 12 12 + 75540)"
  by code_simp

text \<open>
  C6 (as the code has it). The login rows come in runs of six per enrollment, in
  enrollment order. The j-th login row of the i-th enrollment carries that enrollment's
  student id, and its \<open>event_ts\<close> renders a time on a calendar day from the
  \<open>start_date\<close> of the enrollment's term to its \<open>end_date\<close>, both included, at a time of
  day from 08:00 to 20:59: the time is at least \<open>start_date\<close> plus 8 hours and at most
  \<open>end_date\<close> plus 20 hours 59 minutes (\<open>start_date\<close> and \<open>end_date\<close> are midnights).
\<close>

theorem login_events_on_term_days:
  assumes run: "generate_lms py_hash enrollments sections g
                  = Inr ((xwalk, lms_logins, submissions), g')"
    and i: "i < length enrollments" and j: "j < 6"
  shows "length lms_logins = 6 * length enrollments \<and>
    log_student_id (lms_logins ! (6 * i + j)) = enr_student_id (enrollments ! i) \<and>
    (\<exists>t \<in> set generate_terms. \<exists>ts.
       tm_term_id t = enr_term_id (enrollments ! i) \<and>
       log_event_ts (lms_logins ! (6 * i + j)) = strftime_ts ts \<and>
       tm_start_date t + 28800 \<le> ts \<and>
       ts \<le> tm_end_date t + 75540 \<and>
       toordinal (tm_start_date t) \<le> toordinal ts \<and>
       toordinal ts \<le> toordinal (tm_end_date t) \<and>
       28800 \<le> ts mod 86400 \<and> ts mod 86400 \<le> 75540)"
proof -
  let ?row = "lms_logins ! (6 * i + j)"
  from gpostD [OF generate_lms_post [OF enrollment_lms_post] run] i j have
    len: "length lms_logins = 6 * length enrollments"
    and good: "log_student_id ?row = enr_student_id (enrollments ! i) \<and>
      (\<exists>s e ts days tod. map_of term_dates (enr_term_id (enrollments ! i)) = Some (s, e) \<and>
         log_event_ts ?row = strftime_ts ts \<and>
         ts = s + days * 86400 + tod \<and> 0 \<le> days \<and>
         days * 86400 \<le> e - s \<and> 28800 \<le> tod \<and> tod \<le> 75540)"
    by simp_all
  from good obtain s e ts days tod where
    sid: "log_student_id ?row = enr_student_id (enrollments ! i)"
    and td: "map_of term_dates (enr_term_id (enrollments ! i)) = Some (s, e)"
    and row: "log_event_ts ?row = strftime_ts ts"
    and ts: "ts = s + days * 86400 + tod" and days: "0 \<le> days" "days * 86400 \<le> e - s"
    and tod: "28800 \<le> tod" "tod \<le> 75540"
    by blast
  from term_dates_terms [OF td] obtain t where
    t: "t \<in> set generate_terms" "tm_term_id t = enr_term_id (enrollments ! i)"
      "tm_start_date t = s" "tm_end_date t = e"
    by blast
  from term_dates_midnight [OF td] obtain a b where ab: "s = 86400 * a" "e = 86400 * b"
    by (metis mod_eq_0_iff_dvd dvd_def)
  from ts ab have ts': "ts = 86400 * (a + days) + tod" by (simp add: algebra_simps)
  from tod have tod': "0 \<le> tod" "tod < 86400" by simp_all
  have "ts div 86400 = (a + days) + tod div 86400"
    unfolding ts' by (rule div_mult_self4) simp
  with tod' have dv: "ts div 86400 = a + days" by simp
  have "ts mod 86400 = tod mod 86400"
    unfolding ts' by (rule mod_mult_self4)
  with tod' have md: "ts mod 86400 = tod" by simp
  from days(2) ab have "days \<le> b - a" by simp
  with dv days(1) ab have ord: "toordinal s \<le> toordinal ts" "toordinal ts \<le> toordinal e"
    unfolding toordinal_def by simp_all
  from ts days tod have bnd: "s + 28800 \<le> ts" "ts \<le> e + 75540" by simp_all
  from len sid t row ord bnd md tod show ?thesis by blast
qed

theorem login_events_on_term_days_witness:
  "map_sum id fst (generate_lms hash_a [math_enrolled] [math_section ''2025FA''] (draws_last, 0))
     = Inr (xwalk_a, replicate 6 (login_last ''LMS-0000018''),
            map (submission_last ''LMS-0000018'') [1, 2, 3, 4]) \<and>
   (0::nat) < length [math_enrolled] \<and> (5::nat) < 6 \<and>
   log_event_ts (replicate 6 (login_last ''LMS-0000018'') ! (6 * 0 + 5)) = ''2025-12-12 20:59:00'' \<and>
   length (replicate 6 (login_last ''LMS-0000018'')) = 6 * length [math_enrolled] \<and>
   log_student_id (replicate 6 (login_last ''LMS-0000018'') ! (6 * 0 + 5))
     = enr_student_id ([math_enrolled] ! 0) \<and>
   (\<exists>t \<in> set generate_terms. \<exists>ts.
      tm_term_id t = enr_term_id ([math_enrolled] ! 0) \<and>
      log_event_ts (replicate 6 (login_last ''LMS-0000018'') ! (6 * 0 + 5)) = strftime_ts ts \<and>
      tm_start_date t + 28800 \<le> ts \<and>
      ts \<le> tm_end_date t + 75540 \<and>
      toordinal (tm_start_date t) \<le> toordinal ts \<and>
      toordinal ts \<le> toordinal (tm_end_date t) \<and>
      28800 \<le> ts mod 86400 \<and> ts mod 86400 \<le> 75540)"
proof -
  from map_sum_fst_Inr [OF run_lms_a] obtain g' where
    r: "generate_lms hash_a [math_enrolled] [math_section ''2025FA''] (draws_last, 0)
          = Inr ((xwalk_a, replicate 6 (login_last ''LMS-0000018''),
                  map (submission_last ''LMS-0000018'') [1, 2, 3, 4]), g')" ..
  have i: "(0::nat) < length [math_enrolled]" and j: "(5::nat) < 6" by simp_all
  have ts: "log_event_ts (replicate 6 (login_last ''LMS-0000018'') ! (6 * 0 + 5))
      = ''2025-12-12 20:59:00''"
    by (simp add: login_last_def)
  from login_events_on_term_days [OF r i j] run_lms_a i j ts show ?thesis by blast
qed

text \<open>
  The run on the draw sequence that selects the last value of every range: the
  \<open>event_ts\<close> of the enrollment's logins is the \<open>end_date\<close> of its term plus 20 hours 59
  minutes, after \<open>end_date\<close>, and the rows hold its rendering.
\<close>

theorem last_day_login_after_end_date:
  "map_of term_dates (enr_term_id math_enrolled)
     = Some (mk_datetime 2025 8 25, mk_datetime 2025 12 12) \<and>
   tm_term_id (last generate_terms) = enr_term_id math_enrolled \<and>
   tm_end_date (last generate_terms) = mk_datetime 2025 12 12 \<and>
   map_sum id fst (login_event_ts (mk_datetime 2025 8 25) (mk_datetime 2025 12 12) (draws_last, 0))
     = Inr (mk_datetime 2025 12 12 + 75540) \<and>
   tm_end_date (last generate_terms) < mk_datetime 2025 12 12 + 75540 \<and>
   map_sum id fst (generate_lms hash_a [math_enrolled] [math_section ''2025FA''] (draws_last, 0))
     = Inr (xwalk_a, replicate 6 (login_last ''LMS-0000018''),
            map (submission_last ''LMS-0000018'') [1, 2, 3, 4]) \<and>
   log_event_ts (login_last ''LMS-0000018'') = strftime_ts (mk_datetime 2025 12 12 + 75540) \<and>
   strftime_ts (tm_end_date (last generate_terms)) = ''2025-12-12 00:00:00''"
proof -
  have 1: "map_of term_dates (enr_term_id math_enrolled)
     = Some (mk_datetime 2025 8 25, mk_datetime 2025 12 12)"
    by (simp add: term_dates_def math_enrolled_def)
  have 2: "tm_term_id (last generate_terms) = enr_term_id math_enrolled"
    "tm_end_date (last generate_terms) = mk_datetime 2025 12 12"
    by (simp_all add: generate_terms_def math_enrolled_def)
  have 3: "tm_end_date (last generate_terms) < mk_datetime 2025 12 12 + 75540"
    by (simp add: 2)
  have 4: "log_event_ts (login_last ''LMS-0000018'') = strftime_ts (mk_datetime 2025 12 12 + 75540)"
    by code_simp
  have 5: "strftime_ts (tm_end_date (last generate_terms)) = ''2025-12-12 00:00:00''"
    by code_simp
  from 1 2 3 4 5 run_login_event_ts_last run_lms_a show ?thesis by blast
qed

lemma lms_course_id_of_inj:
  assumes "lms_course_id_of h1 s = lms_course_id_of h2 s"
  shows "\<bar>h1 s\<bar> mod 10000000 = \<bar>h2 s\<bar> mod 10000000"
proof -
  from assms have "fmt_0d 7 (\<bar>h1 s\<bar> mod 10000000) = fmt_0d 7 (\<bar>h2 s\<bar> mod 10000000)"
    by (simp add: lms_course_id_of_def)
  then show ?thesis by (rule fmt_0d_inj [rotated 2]) simp_all
qed

text \<open>
  C1 (where two runs differ). \<open>generate_lms\<close> derives \<open>lms_course_id\<close> from the built-in
  string hash of the process. Two runs on the same enrollments, the same sections and the
  same state of the random source, in processes whose string hashes differ on a section id
  (in absolute value modulo 10 000 000), produce different crosswalk rows.
\<close>

theorem lms_course_id_follows_process_hash:
  assumes run1: "generate_lms hash1 enrollments sections g = Inr ((xwalk1, logins1, subs1), g1)"
    and run2: "generate_lms hash2 enrollments sections g = Inr ((xwalk2, logins2, subs2), g2)"
    and sec: "sec \<in> set sections"
    and diff: "\<bar>hash1 (sec_course_section_id sec)\<bar> mod 10000000
                 \<noteq> \<bar>hash2 (sec_course_section_id sec)\<bar> mod 10000000"
  shows "xwalk1 \<noteq> xwalk2"
proof
  assume eq: "xwalk1 = xwalk2"
  from run1 have 1: "xwalk1 = snd (xwalk_loop hash1 sections Map.empty)"
    by (rule generate_lms_xwalk)
  from run2 have 2: "xwalk2 = snd (xwalk_loop hash2 sections Map.empty)"
    by (rule generate_lms_xwalk)
  from eq 1 2 have "map (\<lambda>sec. \<lparr>xw_course_section_id = sec_course_section_id sec,
        xw_lms_course_id = lms_course_id_of hash1 (sec_course_section_id sec)\<rparr>) sections
      = map (\<lambda>sec. \<lparr>xw_course_section_id = sec_course_section_id sec,
        xw_lms_course_id = lms_course_id_of hash2 (sec_course_section_id sec)\<rparr>) sections"
    by (simp add: xwalk_loop_rows)
  with sec have "lms_course_id_of hash1 (sec_course_section_id sec)
      = lms_course_id_of hash2 (sec_course_section_id sec)"
    by simp
  from lms_course_id_of_inj [OF this] diff show False by simp
qed

theorem lms_course_id_follows_process_hash_witness:
  "map_sum id fst (generate_lms hash_a [math_enrolled] [math_section ''2025FA''] (draws_last, 0))
     = Inr (xwalk_a, replicate 6 (login_last ''LMS-0000018''),
            map (submission_last ''LMS-0000018'') [1, 2, 3, 4]) \<and>
   map_sum id fst (generate_lms hash_b [math_enrolled] [math_section ''2025FA''] (draws_last, 0))
     = Inr (xwalk_b, replicate 6 (login_last ''LMS-0000019''),
            map (submission_last ''LMS-0000019'') [1, 2, 3, 4]) \<and>
   math_section ''2025FA'' \<in> set [math_section ''2025FA''] \<and>
   \<bar>hash_a (sec_course_section_id (math_section ''2025FA''))\<bar> mod 10000000
     \<noteq> \<bar>hash_b (sec_course_section_id (math_section ''2025FA''))\<bar> mod 10000000 \<and>
   xwalk_a \<noteq> xwalk_b"
proof -
  from map_sum_fst_Inr [OF run_lms_a] obtain g1 where
    a: "generate_lms hash_a [math_enrolled] [math_section ''2025FA''] (draws_last, 0)
          = Inr ((xwalk_a, replicate 6 (login_last ''LMS-0000018''),
                  map (submission_last ''LMS-0000018'') [1, 2, 3, 4]), g1)" ..
  from map_sum_fst_Inr [OF run_lms_b] obtain g2 where
    b: "generate_lms hash_b [math_enrolled] [math_section ''2025FA''] (draws_last, 0)
          = Inr ((xwalk_b, replicate 6 (login_last ''LMS-0000019''),
                  map (submission_last ''LMS-0000019'') [1, 2, 3, 4]), g2)" ..
  have m: "math_section ''2025FA'' \<in> set [math_section ''2025FA'']" by simp
  have d: "\<bar>hash_a (sec_course_section_id (math_section ''2025FA''))\<bar> mod 10000000
     \<noteq> \<bar>hash_b (sec_course_section_id (math_section ''2025FA''))\<bar> mod 10000000"
    by (simp add: hash_a_def hash_b_def math_section_def)
  from lms_course_id_follows_process_hash [OF a b m d] run_lms_a run_lms_b m d
  show ?thesis by blast
qed

subsection \<open>The script with a non-positive student count\<close>

lemma gokD: "gok m \<Longrightarrow> \<exists>y g'. m g = Inr (y, g')"
  unfolding gok_def by blast

lemma gok_gret: "gok (gret x)"
  unfolding gok_def gret_def by blast

lemma gok_next_raw: "gok next_raw"
  unfolding gok_def next_raw_def by blast

lemma gok_gbind:
  assumes "gok m" and "\<And>x. gok (f x)"
  shows "gok (gbind m f)"
  unfolding gok_def
proof
  fix g
  from gokD [OF assms(1)] obtain x g1 where m: "m g = Inr (x, g1)" by blast
  from gokD [OF assms(2)] obtain y g2 where "f x g1 = Inr (y, g2)" by blast
  with m have "gbind m f g = Inr (y, g2)" by (simp add: gbind_def)
  then show "\<exists>y g'. gbind m f g = Inr (y, g')" by blast
qed

lemma gok_choice: "xs \<noteq> [] \<Longrightarrow> gok (choice xs)"
  unfolding choice_def by (simp add: gok_gbind gok_next_raw gok_gret)

lemma gok_randint: "a \<le> b \<Longrightarrow> gok (randint a b)"
  unfolding randint_def by (simp add: gok_gbind gok_next_raw gok_gret)

lemma gok_gmap:
  assumes "\<And>x. gok (f x)"
  shows "gok (gmap f xs)"
  by (induction xs) (simp_all add: gok_gret gok_gbind assms)

lemma gok_generate_course: "gok generate_course"
  unfolding generate_course_def Let_def
  by (intro gok_gbind gok_gret gok_choice gok_randint) (simp_all add: subjects_def titles_def)

lemma gok_generate_catalog: "gok (generate_catalog n)"
  unfolding generate_catalog_def by (rule gok_gmap) (rule gok_generate_course)

lemma gok_generate_sections: "gok (generate_sections courses terms)"
  unfolding generate_sections_def generate_course_sections_def generate_section_def Let_def
  by (intro gok_gbind gok_gmap gok_gret gok_choice) simp_all

lemma gok_generate_advisors: "gok (generate_advisors n)"
  unfolding generate_advisors_def generate_advisor_def Let_def
  by (intro gok_gbind gok_gmap gok_gret gok_choice)
     (simp_all add: advisor_first_names_def advisor_last_names_def departments_def)

lemma generate_students_nonpositive:
  "n \<le> 0 \<Longrightarrow> generate_students n terms advisors g = Inr ([], g)"
  by (simp add: generate_students_def gret_def)

lemma generate_enrollments_no_students:
  "generate_enrollments [] sections generate_terms g = Inr ([], g)"
  by (simp add: generate_enrollments_def py_last_def py_second_last_def generate_terms_def
      gbind_def gret_def)

lemma generate_lms_no_enrollments:
  "generate_lms h [] sections g = Inr ((snd (xwalk_loop h sections Map.empty), [], []), g)"
  by (simp add: generate_lms_def split_beta gbind_def gret_def)

lemma generate_admissions_no_students:
  "generate_admissions [] terms g = Inr (([], []), g)"
  by (simp add: generate_admissions_def gbind_def gret_def)

lemma generate_financials_no_enrollments:
  "generate_financials students [] courses_by_id g = Inl ValueError"
  by (simp add: generate_financials_def gbind_def gret_def gthrow_def)

lemma main_nonpositive:
  assumes n: "num_students \<le> 0"
    and dirs: "list_all (env_makedirs e) (output_dirs e out_dir)"
    and files: "\<forall>p. env_open e p"
  shows "snd (main e num_students seed out_dir) = Some ValueError \<and>
    map fst (fst (main e num_students seed out_dir)) = partial_paths e out_dir"
proof -
  let ?g0 = "(env_seed e seed, 0::nat)"
  from gokD [OF gok_generate_catalog] obtain courses ga where
    c: "generate_catalog 120 ?g0 = Inr (courses, ga)" by blast
  from gokD [OF gok_generate_sections] obtain sections gb where
    s: "generate_sections courses generate_terms ga = Inr (sections, gb)" by blast
  from gokD [OF gok_generate_advisors] obtain advisors gc where
    a: "generate_advisors 50 gb = Inr (advisors, gc)" by blast
  have ref: "gbind (generate_catalog 120) (\<lambda>courses.
             gbind (generate_sections courses generate_terms) (\<lambda>sections.
             gbind (generate_advisors 50) (\<lambda>advisors.
             gbind (generate_students num_students generate_terms advisors) (\<lambda>students.
             gbind (generate_enrollments students sections generate_terms) (\<lambda>enrollments.
             gret (courses, sections, advisors, students, enrollments)))))) ?g0
      = Inr ((courses, sections, advisors, [], []), gc)"
    by (simp add: gbind_def c s a generate_students_nonpositive [OF n]
        generate_enrollments_no_students gret_def)
  from dirs have d: "list_all (env_makedirs e)
      [path_join (env_abspath e out_dir) ''sis'', path_join (env_abspath e out_dir) ''lms'',
       path_join (env_abspath e out_dir) ''admissions'',
       path_join (env_abspath e out_dir) ''financials'',
       path_join (env_abspath e out_dir) ''student_advising'']"
    by (simp add: output_dirs_def Let_def)
  show ?thesis
    unfolding main_def Let_def partial_paths_def
    by (simp only: d ref not_True_eq_False if_False sum.case prod.case)
       (simp add: files gbind_def gret_def generate_lms_no_enrollments
          generate_admissions_no_students generate_financials_no_enrollments)
qed

lemma env0_ok:
  "list_all (env_makedirs env0) (output_dirs env0 out_dir)" "\<forall>p. env_open env0 p"
  by (simp_all add: env0_def output_dirs_def Let_def)

lemma partial_paths_env0:
  "partial_paths env0 ''data'' =
     [''/work/data/sis/students.csv'', ''/work/data/sis/terms.csv'',
      ''/work/data/sis/courses.csv'', ''/work/data/sis/sections.csv'',
      ''/work/data/sis/enrollments.csv'', ''/work/data/lms/course_xwalk.csv'',
      ''/work/data/lms/lms_logins.csv'', ''/work/data/lms/submissions.csv'',
      ''/work/data/admissions/applications.csv'', ''/work/data/admissions/tests.csv'']"
  by (simp add: partial_paths_def env0_def path_join_def)

lemma main_nonpositive_files:
  assumes n: "num_students \<le> 0"
    and dirs: "list_all (env_makedirs e) (output_dirs e out_dir)"
    and files: "\<forall>p. env_open e p"
  shows "\<exists>courses sections.
    fst (main e num_students seed out_dir) =
      zip (partial_paths e out_dir)
        [Students [], Terms (map term_csv generate_terms), Courses courses, Sections sections,
         Enrollments [], Xwalk (snd (xwalk_loop (env_hash e) sections Map.empty)), Logins [],
         Submissions [], Applications [], Tests []]"
proof -
  let ?g0 = "(env_seed e seed, 0::nat)"
  from gokD [OF gok_generate_catalog] obtain courses ga where
    c: "generate_catalog 120 ?g0 = Inr (courses, ga)" by blast
  from gokD [OF gok_generate_sections] obtain sections gb where
    s: "generate_sections courses generate_terms ga = Inr (sections, gb)" by blast
  from gokD [OF gok_generate_advisors] obtain advisors gc where
    a: "generate_advisors 50 gb = Inr (advisors, gc)" by blast
  have ref: "gbind (generate_catalog 120) (\<lambda>courses.
             gbind (generate_sections courses generate_terms) (\<lambda>sections.
             gbind (generate_advisors 50) (\<lambda>advisors.
             gbind (generate_students num_students generate_terms advisors) (\<lambda>students.
             gbind (generate_enrollments students sections generate_terms) (\<lambda>enrollments.
             gret (courses, sections, advisors, students, enrollments)))))) ?g0
      = Inr ((courses, sections, advisors, [], []), gc)"
    by (simp add: gbind_def c s a generate_students_nonpositive [OF n]
        generate_enrollments_no_students gret_def)
  from dirs have d: "list_all (env_makedirs e)
      [path_join (env_abspath e out_dir) ''sis'', path_join (env_abspath e out_dir) ''lms'',
       path_join (env_abspath e out_dir) ''admissions'',
       path_join (env_abspath e out_dir) ''financials'',
       path_join (env_abspath e out_dir) ''student_advising'']"
    by (simp add: output_dirs_def Let_def)
  have "fst (main e num_students seed out_dir) =
      zip (partial_paths e out_dir)
        [Students [], Terms (map term_csv generate_terms), Courses courses, Sections sections,
         Enrollments [], Xwalk (snd (xwalk_loop (env_hash e) sections Map.empty)), Logins [],
         Submissions [], Applications [], Tests []]"
    unfolding main_def Let_def partial_paths_def
    by (simp only: d ref not_True_eq_False if_False sum.case prod.case)
       (simp add: files gbind_def gret_def generate_lms_no_enrollments
          generate_admissions_no_students generate_financials_no_enrollments)
  then show ?thesis by blast
qed

text \<open>
  C5 (as the code has it). \<open>main\<close> does not validate the student count and has no
  error for an invalid argument. With a count of zero or less, and a file system that
  accepts the output directories and files, the run generates no student and no
  enrollment and writes, first and in this order, the five SIS files, the three LMS files
  and the two admissions files; the student, enrollment, login, submission, application
  and test tables are empty. (What the run does after these files is not part of the
  statement.)
\<close>

theorem nonpositive_count_is_not_validated:
  assumes "num_students \<le> 0"
    and "list_all (env_makedirs e) (output_dirs e out_dir)"
    and "\<forall>p. env_open e p"
  shows "\<exists>courses sections xwalk rest.
    fst (main e num_students seed out_dir) =
      zip (partial_paths e out_dir)
        [Students [], Terms (map term_csv generate_terms), Courses courses, Sections sections,
         Enrollments [], Xwalk xwalk, Logins [], Submissions [], Applications [], Tests []]
      @ rest"
proof -
  from main_nonpositive_files [OF assms] obtain courses sections where
    "fst (main e num_students seed out_dir) =
      zip (partial_paths e out_dir)
        [Students [], Terms (map term_csv generate_terms), Courses courses, Sections sections,
         Enrollments [], Xwalk (snd (xwalk_loop (env_hash e) sections Map.empty)), Logins [],
         Submissions [], Applications [], Tests []]"
    by blast
  then have "fst (main e num_students seed out_dir) =
      zip (partial_paths e out_dir)
        [Students [], Terms (map term_csv generate_terms), Courses courses, Sections sections,
         Enrollments [], Xwalk (snd (xwalk_loop (env_hash e) sections Map.empty)), Logins [],
         Submissions [], Applications [], Tests []] @ []"
    by simp
  then show ?thesis by blast
qed

theorem nonpositive_count_is_not_validated_witness:
  "(- 5 :: int) \<le> 0 \<and>
   list_all (env_makedirs env0) (output_dirs env0 ''data'') \<and>
   (\<forall>p. env_open env0 p) \<and>
   (\<exists>courses sections xwalk rest.
      fst (main env0 (- 5) 360 ''data'') =
        zip (partial_paths env0 ''data'')
          [Students [], Terms (map term_csv generate_terms), Courses courses, Sections sections,
           Enrollments [], Xwalk xwalk, Logins [], Submissions [], Applications [], Tests []]
        @ rest)"
proof -
  have n: "(- 5 :: int) \<le> 0" by simp
  have d: "list_all (env_makedirs env0) (output_dirs env0 ''data'')" by (rule env0_ok(1))
  have f: "\<forall>p. env_open env0 p" by (rule env0_ok(2))
  from nonpositive_count_is_not_validated [OF n d f, of 360] n d f
  show ?thesis by blast
qed

text \<open>
  The run with a student count of 0: it ends with a ValueError, not with an error of
  argument validation, and ten files are written before it ends.
\<close>

theorem zero_count_writes_files:
  "snd (main env0 0 360 ''data'') = Some ValueError \<and>
   map fst (fst (main env0 0 360 ''data'')) =
     [''/work/data/sis/students.csv'', ''/work/data/sis/terms.csv'',
      ''/work/data/sis/courses.csv'', ''/work/data/sis/sections.csv'',
      ''/work/data/sis/enrollments.csv'', ''/work/data/lms/course_xwalk.csv'',
      ''/work/data/lms/lms_logins.csv'', ''/work/data/lms/submissions.csv'',
      ''/work/data/admissions/applications.csv'', ''/work/data/admissions/tests.csv''] \<and>
   fst (main env0 0 360 ''data'') \<noteq> []"
proof -
  have n: "(0 :: int) \<le> 0" by simp
  have d: "list_all (env_makedirs env0) (output_dirs env0 ''data'')" by (rule env0_ok(1))
  have f: "\<forall>p. env_open env0 p" by (rule env0_ok(2))
  from main_nonpositive [OF n d f, of 360]
  have r: "snd (main env0 0 360 ''data'') = Some ValueError"
    "map fst (fst (main env0 0 360 ''data'')) = partial_paths env0 ''data''"
    by simp_all
  from r(2) have "fst (main env0 0 360 ''data'') \<noteq> []"
    unfolding partial_paths_env0 by auto
  with r show ?thesis unfolding partial_paths_env0 by simp
qed

end
